theory Spec2Isabelle
  imports Main
begin

section \<open>Python values and exceptions\<close>

text \<open>
  The values that travel through the registry, the adapter and the logging configuration
  are Python scalars: \<open>None\<close>, booleans, integers and strings. All of them are hashable,
  so each can be used as a dictionary key. Strings are the values the annotations of the
  source expect; the other constructors are there because Python does not enforce them
  and the source tests values for truthiness.
\<close>

datatype pyval = VNone | VBool bool | VInt int | VStr string

text \<open>Python's truth value of a scalar (\<open>if issue\<close>, \<open>if foldername\<close>, \<open>if filename\<close>).\<close>

fun truthy :: "pyval \<Rightarrow> bool" where
  "truthy VNone = False"
| "truthy (VBool b) = b"
| "truthy (VInt i) = (i \<noteq> 0)"
| "truthy (VStr s) = (s \<noteq> [])"

text \<open>
  An exception is its class, the text \<open>str(e)\<close> and the exception that was being handled
  when it was raised (\<open>__context__\<close>). The class tag records what the \<open>except\<close> clauses of
  the source distinguish: \<open>FileNotFoundError\<close>, \<open>yaml.YAMLError\<close> (with their subclasses),
  and every other subclass of \<open>Exception\<close>, named by its class name.
\<close>

datatype exc_class = FileNotFoundError | YAMLError | TypeError | RuntimeError
  | OtherException string

datatype pyexc = Exc (exc_cls: exc_class) (exc_str: string) (exc_context: "pyexc option")

section \<open>The issue registry (logs/core/registry.py)\<close>

text \<open>
  Classes are objects with identity. A class is named by an identifier; the store holds,
  for each class, its \<open>__name__\<close>, the rest of its method resolution order (its proper
  ancestors, nearest first) and the \<open>_error_code\<close> attribute in the class's own
  \<open>__dict__\<close>, if it is set. The store also holds the class-level dictionary
  \<open>IssueRegistry._issues\<close>. Every class is truthy (no metaclass with \<open>__bool__\<close> or
  \<open>__len__\<close>), and no metaclass defines \<open>_error_code\<close>.
\<close>

type_synonym cid = nat

record store =
  class_name :: "cid \<Rightarrow> string"
  class_mro :: "cid \<Rightarrow> cid list"
  error_code_attr :: "cid \<rightharpoonup> string"
  issues :: "string \<rightharpoonup> cid"

text \<open>Attribute lookup along a method resolution order: the first class that has it.\<close>

fun mro_lookup :: "(cid \<rightharpoonup> string) \<Rightarrow> cid list \<Rightarrow> string option" where
  "mro_lookup a [] = None"
| "mro_lookup a (c # cs) = (case a c of Some v \<Rightarrow> Some v | None \<Rightarrow> mro_lookup a cs)"

text \<open>\<open>getattr(c, "_error_code", None)\<close>; \<open>hasattr(c, "_error_code")\<close> is that it is not \<open>None\<close>.\<close>

definition getattr_error_code :: "store \<Rightarrow> cid \<Rightarrow> string option" where
  "getattr_error_code s c = mro_lookup (error_code_attr s) (c # class_mro s c)"

definition hasattr_error_code :: "store \<Rightarrow> cid \<Rightarrow> bool" where
  "hasattr_error_code s c = (getattr_error_code s c \<noteq> None)"

text \<open>\<open>setattr(c, "_error_code", code)\<close> writes the class's own attribute.\<close>

definition setattr_error_code :: "store \<Rightarrow> cid \<Rightarrow> string \<Rightarrow> store" where
  "setattr_error_code s c code = s\<lparr>error_code_attr := (error_code_attr s)(c \<mapsto> code)\<rparr>"

text \<open>\<open>cls._issues[name] = c\<close>.\<close>

definition issues_store :: "store \<Rightarrow> string \<Rightarrow> cid \<Rightarrow> store" where
  "issues_store s name c = s\<lparr>issues := (issues s)(name \<mapsto> c)\<rparr>"

text \<open>\<open>IssueRegistry.get\<close>: \<open>cls._issues.get(name)\<close>.\<close>

definition get :: "store \<Rightarrow> string \<Rightarrow> cid option" where
  "get s name = issues s name"

text \<open>
  The first positional argument of \<open>register\<close> is \<open>None\<close>, a string or a class; the second
  is \<open>None\<close> or a class; \<open>code\<close> is \<open>None\<close> or a string.
\<close>

datatype name_or_class = NoArg | Name string | Class cid

text \<open>
  The two closures \<open>register\<close> can return: the decorator of the second shape captures the
  name and the code, the decorator of the fourth shape captures the code.
\<close>

datatype registrar = NamedDecorator string "string option" | CodeDecorator string

datatype register_result = Returned cid | Decorator registrar

definition usage_message :: string where
  "usage_message =
     ''Invalid usage. Expected either:'' @ [CHR 0x0A] @
     ''1) register('' @ [CHR 0x27] @ ''Name'' @ [CHR 0x27] @ '', class_obj, code=''
       @ [CHR 0x27] @ ''...'' @ [CHR 0x27] @ ''),'' @ [CHR 0x0A] @
     ''2) @register('' @ [CHR 0x27] @ ''Name'' @ [CHR 0x27] @ '', code=''
       @ [CHR 0x27] @ ''...'' @ [CHR 0x27] @ ''),'' @ [CHR 0x0A] @
     ''3) @register (no arguments), or'' @ [CHR 0x0A] @
     ''4) @register(code='' @ [CHR 0x27] @ ''...'' @ [CHR 0x27]
       @ '') where class name is used.''"

text \<open>
  \<open>IssueRegistry.register\<close>. The equations are the four \<open>if\<close> statements of the source, in
  their order, and the final \<open>raise TypeError\<close>.
\<close>

fun register ::
  "store \<Rightarrow> name_or_class \<Rightarrow> cid option \<Rightarrow> string option \<Rightarrow> pyexc + (store \<times> register_result)"
where
  "register s (Name n) (Some c) code =
     (let s1 = issues_store s n c;
          s2 = (case code of Some k \<Rightarrow> setattr_error_code s1 c k | None \<Rightarrow> s1)
      in Inr (s2, Returned c))"
| "register s (Name n) None code = Inr (s, Decorator (NamedDecorator n code))"
| "register s (Class c) None code =
     (let s1 = issues_store s (class_name s c) c;
          s2 = (case code of
                  Some k \<Rightarrow> if \<not> hasattr_error_code s1 c then setattr_error_code s1 c k else s1
                | None \<Rightarrow> s1)
      in Inr (s2, Returned c))"
| "register s NoArg None (Some k) = Inr (s, Decorator (CodeDecorator k))"
| "register s _ _ _ = Inl (Exc TypeError usage_message None)"

text \<open>Calling a returned decorator on the decorated class.\<close>

fun decorator :: "store \<Rightarrow> registrar \<Rightarrow> cid \<Rightarrow> store \<times> cid" where
  "decorator s (NamedDecorator n code) c =
     (let s1 = issues_store s n c;
          s2 = (case code of Some k \<Rightarrow> setattr_error_code s1 c k | None \<Rightarrow> s1)
      in (s2, c))"
| "decorator s (CodeDecorator k) c =
     (let s1 = issues_store s (class_name s c) c
      in (setattr_error_code s1 c k, c))"

text \<open>
  \<open>IssueRegistry.get_all_issues\<close>: a new dictionary that maps every registered name to its
  class and to \<open>getattr(issue_class, "_error_code", None)\<close>.
\<close>

definition get_all_issues :: "store \<Rightarrow> string \<rightharpoonup> (cid \<times> string option)" where
  "get_all_issues s =
     (\<lambda>name. case issues s name of
        None \<Rightarrow> None
      | Some c \<Rightarrow> Some (c, getattr_error_code s c))"

section \<open>Registering through the four call shapes\<close>

text \<open>
  The four accepted shapes of a call, as the documentation of \<open>register\<close> lists them: a
  name with a class; a name alone, giving a decorator; a class alone; a code alone, giving
  a decorator.
\<close>

datatype shape = NameAndClass | NameOnly | ClassOnly | CodeOnly

fun accepted_shape :: "name_or_class \<Rightarrow> cid option \<Rightarrow> string option \<Rightarrow> shape option" where
  "accepted_shape (Name n) (Some c) code = Some NameAndClass"
| "accepted_shape (Name n) None code = Some NameOnly"
| "accepted_shape (Class c) None code = Some ClassOnly"
| "accepted_shape NoArg None (Some k) = Some CodeOnly"
| "accepted_shape a c code = None"

text \<open>How the message of the \<open>TypeError\<close> writes each shape.\<close>

fun shape_text :: "shape \<Rightarrow> string" where
  "shape_text NameAndClass =
     ''register('' @ [CHR 0x27] @ ''Name'' @ [CHR 0x27] @ '', class_obj, code=''
       @ [CHR 0x27] @ ''...'' @ [CHR 0x27] @ '')''"
| "shape_text NameOnly =
     ''@register('' @ [CHR 0x27] @ ''Name'' @ [CHR 0x27] @ '', code=''
       @ [CHR 0x27] @ ''...'' @ [CHR 0x27] @ '')''"
| "shape_text ClassOnly = ''@register (no arguments)''"
| "shape_text CodeOnly = ''@register(code='' @ [CHR 0x27] @ ''...'' @ [CHR 0x27] @ '')''"

text \<open>
  A registration carried to its end: \<open>register("Name", C, code=k)\<close>;
  \<open>@register("Name", code=k)\<close> above the declaration of \<open>C\<close>, which calls the returned
  decorator on \<open>C\<close>; \<open>@register\<close> above it, or \<open>register(C, code=k)\<close>; and
  \<open>@register(code=k)\<close> above it.
\<close>

datatype registration =
    Direct string cid "string option"
  | ByName string "string option" cid
  | Bare cid "string option"
  | ByCode string cid

text \<open>
  The store after a registration. The last branch of each \<open>case\<close> is never taken:
  \<open>register\<close> returns a class in the first and third shape and a decorator in the
  second and fourth.
\<close>

fun perform :: "store \<Rightarrow> registration \<Rightarrow> store" where
  "perform s (Direct n c code) =
     (case register s (Name n) (Some c) code of Inr (s1, Returned c1) \<Rightarrow> s1 | _ \<Rightarrow> s)"
| "perform s (ByName n code c) =
     (case register s (Name n) None code of
        Inr (s1, Decorator d) \<Rightarrow> fst (decorator s1 d c)
      | _ \<Rightarrow> s)"
| "perform s (Bare c code) =
     (case register s (Class c) None code of Inr (s1, Returned c1) \<Rightarrow> s1 | _ \<Rightarrow> s)"
| "perform s (ByCode k c) =
     (case register s NoArg None (Some k) of
        Inr (s1, Decorator d) \<Rightarrow> fst (decorator s1 d c)
      | _ \<Rightarrow> s)"

text \<open>The name a registration stores under, its class and the code it supplies.\<close>

fun stored_name :: "store \<Rightarrow> registration \<Rightarrow> string" where
  "stored_name s (Direct n c code) = n"
| "stored_name s (ByName n code c) = n"
| "stored_name s (Bare c code) = class_name s c"
| "stored_name s (ByCode k c) = class_name s c"

fun kind_of :: "registration \<Rightarrow> cid" where
  "kind_of (Direct n c code) = c"
| "kind_of (ByName n code c) = c"
| "kind_of (Bare c code) = c"
| "kind_of (ByCode k c) = c"

fun supplied_code :: "registration \<Rightarrow> string option" where
  "supplied_code (Direct n c code) = code"
| "supplied_code (ByName n code c) = code"
| "supplied_code (Bare c code) = code"
| "supplied_code (ByCode k c) = Some k"

fun is_bare :: "registration \<Rightarrow> bool" where
  "is_bare (Bare c code) = True"
| "is_bare r = False"

text \<open>
  A store for examples: no class has a code and nothing is registered. Class 0 is
  \<open>QuotaError\<close>, class 1 is \<open>RateError\<close>, and class 2 is \<open>ChildError\<close>, a subclass of
  class 0.
\<close>

definition example_store :: store where
  "example_store =
     \<lparr>class_name = (\<lambda>c. if c = 0 then ''QuotaError'' else if c = 1 then ''RateError''
                          else ''ChildError''),
      class_mro = (\<lambda>c. if c = 2 then [0] else []),
      error_code_attr = Map.empty,
      issues = Map.empty\<rparr>"

section \<open>The logging adapter (logs/core/adapter.py)\<close>

text \<open>
  The keyword arguments of a log call: the structured extension \<open>extra\<close>, a dictionary
  when the caller passes it, and the other keyword arguments (\<open>exc_info\<close>, \<open>stack_info\<close>,
  \<open>stacklevel\<close>), which \<open>process\<close> does not touch.
\<close>

record 'a kwargs =
  kw_extra :: "(string \<rightharpoonup> pyval) option"
  kw_other :: 'a

text \<open>\<open>d.setdefault(k, v)\<close> on a dictionary.\<close>

definition setdefault :: "('k \<rightharpoonup> 'v) \<Rightarrow> 'k \<Rightarrow> 'v \<Rightarrow> ('k \<rightharpoonup> 'v)" where
  "setdefault d k v = (case d k of None \<Rightarrow> d(k \<mapsto> v) | Some _ \<Rightarrow> d)"

text \<open>
  \<open>self.issue_registry.get(issue)\<close> with the value found under \<open>issue\<close>: the keys of
  \<open>_issues\<close> are strings, and a hashable value that is not a string equals none of them.
\<close>

fun registry_get :: "store \<Rightarrow> pyval \<Rightarrow> cid option" where
  "registry_get s (VStr name) = get s name"
| "registry_get s _ = None"

text \<open>
  \<open>kwargs.setdefault("extra", {})\<close>: the dictionary the caller passed, or a new empty one.
\<close>

definition kwargs_extra :: "'a kwargs \<Rightarrow> (string \<rightharpoonup> pyval)" where
  "kwargs_extra kwargs = (case kw_extra kwargs of None \<Rightarrow> Map.empty | Some e \<Rightarrow> e)"

text \<open>The local variable \<open>error_code\<close> of \<open>process\<close>, computed from \<open>extra\<close>.\<close>

definition resolve_error_code :: "store \<Rightarrow> (string \<rightharpoonup> pyval) \<Rightarrow> string" where
  "resolve_error_code s extra =
     (let issue = (case extra ''issue'' of None \<Rightarrow> VNone | Some v \<Rightarrow> v);
          issue_class = (if truthy issue then registry_get s issue else None)
      in case issue_class of
           Some c \<Rightarrow> (case getattr_error_code s c of Some k \<Rightarrow> k | None \<Rightarrow> ''XXX'')
         | None \<Rightarrow> ''XXX'')"

text \<open>\<open>IssueRegistryAdapter.process\<close>.\<close>

definition process :: "store \<Rightarrow> 'm \<Rightarrow> 'a kwargs \<Rightarrow> 'm \<times> 'a kwargs" where
  "process s msg kwargs =
     (let extra = kwargs_extra kwargs;
          error_code = resolve_error_code s extra;
          extra' = setdefault extra ''error_code'' (VStr error_code)
      in (msg, kwargs\<lparr>kw_extra := Some extra'\<rparr>))"

section \<open>The world outside the facade\<close>

text \<open>
  The handlers section of a loaded configuration is a dictionary from handler names to
  handler dictionaries; the loop of the source visits its values in insertion order, so
  it is an association list. A loaded YAML document is either a mapping, with its
  \<open>handlers\<close> section (when the key is there) and its other top-level keys, or something
  that is not a mapping (an empty file loads as \<open>None\<close>).
\<close>

type_synonym handler = "string \<rightharpoonup> pyval"

datatype config =
  Config (cfg_handlers: "(string \<times> handler) list option") (cfg_rest: "string \<rightharpoonup> pyval")

datatype yaml_doc = Mapping config | NotMapping pyval

text \<open>
  What the operating system and the libraries answer during one call: opening the
  configuration file (its text, or the exception of \<open>open\<close>), \<open>yaml.safe_load\<close> on that
  text, \<open>logging.config.dictConfig\<close> (the exception it raises, if any),
  \<open>logging.getHandlerByName("queueHandler")\<close> (\<open>None\<close> when there is no such handler,
  otherwise what starting its listener raises, if anything), \<open>os.makedirs\<close> (the exception
  it raises for a directory, if any), the value of \<open>DEFAULT_CONFIG_PATH\<close>, and the
  absolute path of the parent of the directory of the module's file.
\<close>

record world =
  default_config_path :: string
  open_file :: "string \<Rightarrow> pyexc + string"
  safe_load :: "string \<Rightarrow> pyexc + yaml_doc"
  dictConfig :: "yaml_doc \<Rightarrow> pyexc option"
  queue_handler :: "pyexc option option"
  makedirs_raises :: "string \<Rightarrow> pyexc option"
  module_parent_dir :: string

text \<open>
  What the facade does to the world, in the order it does it, and the process-wide state:
  the class attribute \<open>_initialized\<close>, the trace of the calls made so far, and the
  directories that exist.
\<close>

datatype level = INFO

datatype event =
    OpenConfig string
  | DictConfig yaml_doc
  | BasicConfig level
  | LogWarning string
  | ListenerStart
  | AtexitRegister
  | GetLogger string

record facade =
  initialized :: bool
  events :: "event list"
  dirs :: "string set"

definition emit :: "facade \<Rightarrow> event list \<Rightarrow> facade" where
  "emit st es = st\<lparr>events := events st @ es\<rparr>"

text \<open>At process start the flag is false and nothing has been done.\<close>

definition initial_facade :: "string set \<Rightarrow> facade" where
  "initial_facade ds = \<lparr>initialized = False, events = [], dirs = ds\<rparr>"

text \<open>The number of times the configuration file was opened.\<close>

fun is_open :: "event \<Rightarrow> bool" where
  "is_open (OpenConfig p) = True"
| "is_open e = False"

definition loads :: "facade \<Rightarrow> nat" where
  "loads st = length (filter is_open (events st))"

section \<open>The logging facade (logs/core/factory.py)\<close>

text \<open>
  The body of the \<open>try\<close> statement of \<open>_setup_logging\<close>: the state it leaves and the
  exception it raises, if any.
\<close>

definition try_load_apply :: "world \<Rightarrow> string \<Rightarrow> facade \<Rightarrow> facade \<times> pyexc option" where
  "try_load_apply w path st =
     (let st1 = emit st [OpenConfig path]
      in case open_file w path of
           Inl e \<Rightarrow> (st1, Some e)
         | Inr text \<Rightarrow>
             (case safe_load w text of
                Inl e \<Rightarrow> (st1, Some e)
              | Inr config \<Rightarrow> (emit st1 [DictConfig config], dictConfig w config)))"

text \<open>The two \<open>except\<close> clauses, shared by both versions of \<open>_setup_logging\<close>.\<close>

definition fallback_message :: string where
  "fallback_message = ''Falling back to default logging config...''"

definition handle_setup_exception :: "facade \<times> pyexc option \<Rightarrow> facade \<times> pyexc option" where
  "handle_setup_exception r =
     (case r of
        (st, None) \<Rightarrow> (st, None)
      | (st, Some e) \<Rightarrow>
          if exc_cls e = FileNotFoundError \<or> exc_cls e = YAMLError
          then (emit st [BasicConfig INFO, LogWarning fallback_message], None)
          else (st, Some (Exc RuntimeError
                  (''Unexpected error setting up logging: '' @ exc_str e) (Some e))))"

text \<open>\<open>config_path = Path(config_path) if config_path else cls.DEFAULT_CONFIG_PATH\<close>.\<close>

definition choose_config_path :: "world \<Rightarrow> string option \<Rightarrow> string" where
  "choose_config_path w config_path =
     (case config_path of
        None \<Rightarrow> default_config_path w
      | Some p \<Rightarrow> if p \<noteq> [] then p else default_config_path w)"

definition setup_logging :: "world \<Rightarrow> string option \<Rightarrow> facade \<Rightarrow> facade \<times> pyexc option" where
  "setup_logging w config_path st =
     handle_setup_exception (try_load_apply w (choose_config_path w config_path) st)"

definition start_queue_listener :: "world \<Rightarrow> facade \<Rightarrow> facade \<times> pyexc option" where
  "start_queue_listener w st =
     (case queue_handler w of
        None \<Rightarrow> (st, None)
      | Some (Some e) \<Rightarrow> (st, Some e)
      | Some None \<Rightarrow> (emit st [ListenerStart, AtexitRegister], None))"

definition initialize :: "world \<Rightarrow> facade \<Rightarrow> facade \<times> pyexc option" where
  "initialize w st =
     (if \<not> initialized st then
        (case setup_logging w None st of
           (st1, Some e) \<Rightarrow> (st1, Some e)
         | (st1, None) \<Rightarrow>
             (case start_queue_listener w st1 of
                (st2, Some e) \<Rightarrow> (st2, Some e)
              | (st2, None) \<Rightarrow> (st2\<lparr>initialized := True\<rparr>, None)))
      else (st, None))"

text \<open>An adapter is bound to the logger of the name it was created for.\<close>

datatype adapter = IssueRegistryAdapter string

definition create_logger :: "world \<Rightarrow> string \<Rightarrow> facade \<Rightarrow> facade \<times> (pyexc + adapter)" where
  "create_logger w name st =
     (case initialize w st of
        (st1, Some e) \<Rightarrow> (st1, Inl e)
      | (st1, None) \<Rightarrow> (emit st1 [GetLogger name], Inr (IssueRegistryAdapter name)))"

text \<open>
  A sequence of calls of \<open>create_logger\<close>, each in the world it finds; a caller that
  catches the exception of one call can make the next.
\<close>

fun create_loggers :: "facade \<Rightarrow> (world \<times> string) list \<Rightarrow> facade" where
  "create_loggers st [] = st"
| "create_loggers st ((w, name) # calls) = create_loggers (fst (create_logger w name st)) calls"

section \<open>Paths and directories (posixpath, os)\<close>

text \<open>\<open>os.path.join\<close>: one step of its loop, and the loop over the parts.\<close>

definition join_step :: "string \<Rightarrow> string \<Rightarrow> string" where
  "join_step path b =
     (if b \<noteq> [] \<and> hd b = CHR ''/'' then b
      else if path = [] \<or> last path = CHR ''/'' then path @ b
      else path @ ''/'' @ b)"

fun type_name :: "pyval \<Rightarrow> string" where
  "type_name VNone = ''NoneType''"
| "type_name (VBool b) = ''bool''"
| "type_name (VInt i) = ''int''"
| "type_name (VStr s) = ''str''"

definition join_type_error :: "pyval \<Rightarrow> pyexc" where
  "join_type_error v =
     Exc TypeError
       (''join() argument must be str, bytes, or os.PathLike object, not ''
          @ [CHR 0x27] @ type_name v @ [CHR 0x27]) None"

fun os_path_join :: "string \<Rightarrow> pyval list \<Rightarrow> pyexc + string" where
  "os_path_join path [] = Inr path"
| "os_path_join path (VStr b # ps) = os_path_join (join_step path b) ps"
| "os_path_join path (v # ps) = Inl (join_type_error v)"

text \<open>
  \<open>os.path.dirname\<close>: the path up to and including its last separator, without the
  trailing separators unless it consists of separators only.
\<close>

definition is_sep :: "char \<Rightarrow> bool" where
  "is_sep c = (c = CHR ''/'')"

definition dirname :: "string \<Rightarrow> string" where
  "dirname p =
     (let head = rev (dropWhile (\<lambda>c. \<not> is_sep c) (rev p))
      in if head \<noteq> [] \<and> \<not> list_all is_sep head
         then rev (dropWhile is_sep (rev head))
         else head)"

text \<open>
  The directories \<open>os.makedirs(d, exist_ok=True)\<close> leaves in existence when it returns:
  \<open>d\<close> and its ancestors.
\<close>

function dir_chain :: "string \<Rightarrow> string list" where
  "dir_chain d =
     (if d = [] then []
      else if dirname d = d then [d]
      else d # dir_chain (dirname d))"
  by pat_completeness auto
termination
proof (relation "measure length")
  show "wf (measure length)" by simp
next
  fix d :: string
  assume "d \<noteq> []" and neq: "dirname d \<noteq> d"
  have pre: "\<exists>t. xs = rev (dropWhile P (rev xs)) @ t" for P and xs :: string
  proof -
    have "rev xs = takeWhile P (rev xs) @ dropWhile P (rev xs)" by simp
    then have "xs = rev (takeWhile P (rev xs) @ dropWhile P (rev xs))"
      by (metis rev_rev_ident)
    then show ?thesis by (metis rev_append)
  qed
  obtain h where h: "h = rev (dropWhile (\<lambda>c. \<not> is_sep c) (rev d))" by simp
  obtain t1 where t1: "d = h @ t1" using pre h by blast
  obtain t2 where t2: "h = rev (dropWhile is_sep (rev h)) @ t2" using pre by blast
  have "\<exists>t. d = dirname d @ t"
  proof (cases "h \<noteq> [] \<and> \<not> list_all is_sep h")
    case True
    then have "dirname d = rev (dropWhile is_sep (rev h))"
      unfolding dirname_def h by (simp add: Let_def)
    then show ?thesis using t1 t2 by (metis append_assoc)
  next
    case False
    then have "dirname d = h" unfolding dirname_def h by (auto simp: Let_def)
    then show ?thesis using t1 by blast
  qed
  then obtain t where t: "d = dirname d @ t" by blast
  with neq have "t \<noteq> []" by auto
  have "length d = length (dirname d) + length t" using t by (metis length_append)
  with \<open>t \<noteq> []\<close> have "length (dirname d) < length d" by simp
  then show "(dirname d, d) \<in> measure length" by simp
qed

declare dir_chain.simps [simp del]

definition makedirs :: "world \<Rightarrow> string \<Rightarrow> facade \<Rightarrow> facade \<times> pyexc option" where
  "makedirs w d st =
     (case makedirs_raises w d of
        Some e \<Rightarrow> (st, Some e)
      | None \<Rightarrow> (st\<lparr>dirs := dirs st \<union> set (dir_chain d)\<rparr>, None))"

section \<open>The logging facade with file output directories (core/factory.py)\<close>

definition rotating_marker :: string where
  "rotating_marker = ''logging.handlers.RotatingFileHandler''"

text \<open>
  The body of the loop of \<open>_setup_file_output_directory\<close> for one handler dictionary: the
  state it leaves, and the handler as rewritten or the exception raised.
\<close>

definition rewrite_handler ::
  "world \<Rightarrow> string \<Rightarrow> handler \<Rightarrow> facade \<Rightarrow> facade \<times> (pyexc + handler)"
where
  "rewrite_handler w root h st =
     (if h ''class'' \<noteq> Some (VStr rotating_marker) then (st, Inr h)
      else
        let foldername = (case h ''foldername'' of None \<Rightarrow> VStr [] | Some v \<Rightarrow> v);
            h1 = h(''foldername'' := None)
        in case (if truthy foldername then os_path_join ''logs'' [foldername]
                 else Inr ''logs'') of
             Inl e \<Rightarrow> (st, Inl e)
           | Inr output_folder \<Rightarrow>
               let filename = (case h1 ''filename'' of None \<Rightarrow> VNone | Some v \<Rightarrow> v)
               in if truthy filename then
                    (case os_path_join root [VStr output_folder, filename] of
                       Inl e \<Rightarrow> (st, Inl e)
                     | Inr path \<Rightarrow>
                         (case makedirs w (dirname path) st of
                            (st1, Some e) \<Rightarrow> (st1, Inl e)
                          | (st1, None) \<Rightarrow> (st1, Inr (h1(''filename'' \<mapsto> VStr path)))))
                  else (st, Inr h1))"

fun rewrite_handlers ::
  "world \<Rightarrow> string \<Rightarrow> (string \<times> handler) list \<Rightarrow> facade
     \<Rightarrow> facade \<times> (pyexc + (string \<times> handler) list)"
where
  "rewrite_handlers w root [] st = (st, Inr [])"
| "rewrite_handlers w root ((name, h) # hs) st =
     (case rewrite_handler w root h st of
        (st1, Inl e) \<Rightarrow> (st1, Inl e)
      | (st1, Inr h') \<Rightarrow>
          (case rewrite_handlers w root hs st1 of
             (st2, Inl e) \<Rightarrow> (st2, Inl e)
           | (st2, Inr hs') \<Rightarrow> (st2, Inr ((name, h') # hs'))))"

definition attribute_error_get :: "pyval \<Rightarrow> pyexc" where
  "attribute_error_get v =
     Exc (OtherException ''AttributeError'')
       ([CHR 0x27] @ type_name v @ [CHR 0x27] @ '' object has no attribute ''
          @ [CHR 0x27] @ ''get'' @ [CHR 0x27]) None"

text \<open>
  \<open>_setup_file_output_directory\<close>. The loop is inside the \<open>if log_project_root is None\<close>
  of the source: with a root given, the configuration is returned as it came.
\<close>

definition setup_file_output_directory ::
  "world \<Rightarrow> yaml_doc \<Rightarrow> string option \<Rightarrow> facade \<Rightarrow> facade \<times> (pyexc + yaml_doc)"
where
  "setup_file_output_directory w config log_project_root st =
     (case log_project_root of
        Some root \<Rightarrow> (st, Inr config)
      | None \<Rightarrow>
          (case config of
             NotMapping v \<Rightarrow> (st, Inl (attribute_error_get v))
           | Mapping (Config None rest) \<Rightarrow> (st, Inr config)
           | Mapping (Config (Some hs) rest) \<Rightarrow>
               (case rewrite_handlers w (module_parent_dir w) hs st of
                  (st1, Inl e) \<Rightarrow> (st1, Inl e)
                | (st1, Inr hs') \<Rightarrow> (st1, Inr (Mapping (Config (Some hs') rest))))))"

definition core_try_load_apply :: "world \<Rightarrow> string \<Rightarrow> facade \<Rightarrow> facade \<times> pyexc option" where
  "core_try_load_apply w path st =
     (let st1 = emit st [OpenConfig path]
      in case open_file w path of
           Inl e \<Rightarrow> (st1, Some e)
         | Inr text \<Rightarrow>
             (case safe_load w text of
                Inl e \<Rightarrow> (st1, Some e)
              | Inr config \<Rightarrow>
                  (case setup_file_output_directory w config None st1 of
                     (st2, Inl e) \<Rightarrow> (st2, Some e)
                   | (st2, Inr config') \<Rightarrow>
                       (emit st2 [DictConfig config'], dictConfig w config'))))"

definition core_setup_logging ::
  "world \<Rightarrow> string option \<Rightarrow> facade \<Rightarrow> facade \<times> pyexc option"
where
  "core_setup_logging w config_path st =
     handle_setup_exception (core_try_load_apply w (choose_config_path w config_path) st)"

section \<open>Observations and examples for the facade\<close>

text \<open>The documents passed to \<open>dictConfig\<close>, in order.\<close>

fun applied :: "event list \<Rightarrow> yaml_doc list" where
  "applied [] = []"
| "applied (DictConfig d # es) = d # applied es"
| "applied (e # es) = applied es"

text \<open>The events a call added to the trace.\<close>

definition new_events :: "facade \<Rightarrow> facade \<Rightarrow> event list" where
  "new_events st st' = drop (length (events st)) (events st')"

text \<open>
  For each handler of a document, its name with its \<open>filename\<close> and \<open>foldername\<close>
  entries.
\<close>

fun handler_files :: "yaml_doc \<Rightarrow> (string \<times> pyval option \<times> pyval option) list" where
  "handler_files (Mapping (Config (Some hs) rest)) =
     map (\<lambda>(name, h). (name, h ''filename'', h ''foldername'')) hs"
| "handler_files d = []"

text \<open>
  A path with the separator that \<open>os.path.join\<close> puts after it, and the place of a log
  file under the logs root: \<open>root/logs/foldername/filename\<close> with a folder name,
  \<open>root/logs/filename\<close> without.
\<close>

definition with_sep :: "string \<Rightarrow> string" where
  "with_sep p = (if p \<noteq> [] \<and> last p = CHR ''/'' then p else p @ ''/'')"

definition logs_target :: "string \<Rightarrow> string option \<Rightarrow> string \<Rightarrow> string" where
  "logs_target root folder filename =
     (case folder of
        None \<Rightarrow> with_sep root @ ''logs/'' @ filename
      | Some fo \<Rightarrow> with_sep root @ ''logs/'' @ fo @ ''/'' @ filename)"

text \<open>A relative path: a non-empty string that does not start with the separator.\<close>

definition relative :: "string \<Rightarrow> bool" where
  "relative p = (p \<noteq> [] \<and> hd p \<noteq> CHR ''/'')"

text \<open>
  Worlds for examples. In \<open>missing_world\<close> the configuration file does not exist. In
  \<open>worker_world\<close> it holds one rotating file handler with \<open>filename: app.log\<close> and
  \<open>foldername: worker\<close>, and a queue handler is configured. In \<open>absolute_world\<close> the
  handler has \<open>filename: /var/log/app.log\<close>, in \<open>plain_world\<close> it has \<open>filename: app.log\<close>
  and no folder name. In \<open>garbled_world\<close> the file cannot be parsed, in \<open>locked_world\<close>
  it cannot be read, and in \<open>broken_world\<close> it loads and \<open>dictConfig\<close> rejects it.
\<close>

definition missing_world :: world where
  "missing_world =
     \<lparr>default_config_path = ''/srv/app/settings/config.yaml'',
      open_file = (\<lambda>p. Inl (Exc FileNotFoundError ''No such file or directory'' None)),
      safe_load = (\<lambda>t. Inr (NotMapping VNone)),
      dictConfig = (\<lambda>d. None),
      queue_handler = None,
      makedirs_raises = (\<lambda>d. None),
      module_parent_dir = ''/srv/app''\<rparr>"

definition worker_handler :: handler where
  "worker_handler =
     [''class'' \<mapsto> VStr ''logging.handlers.RotatingFileHandler'',
      ''filename'' \<mapsto> VStr ''app.log'',
      ''foldername'' \<mapsto> VStr ''worker'']"

definition worker_world :: world where
  "worker_world =
     missing_world
       \<lparr>open_file := (\<lambda>p. Inr ''handlers: ...''),
        safe_load :=
          (\<lambda>t. Inr (Mapping (Config (Some [(''file'', worker_handler)])
                                 [''version'' \<mapsto> VInt 1]))),
        queue_handler := Some None\<rparr>"

definition absolute_handler :: handler where
  "absolute_handler =
     [''class'' \<mapsto> VStr ''logging.handlers.RotatingFileHandler'',
      ''filename'' \<mapsto> VStr ''/var/log/app.log'']"

definition absolute_world :: world where
  "absolute_world =
     worker_world
       \<lparr>safe_load :=
          (\<lambda>t. Inr (Mapping (Config (Some [(''file'', absolute_handler)])
                                 [''version'' \<mapsto> VInt 1])))\<rparr>"

definition plain_handler :: handler where
  "plain_handler =
     [''class'' \<mapsto> VStr ''logging.handlers.RotatingFileHandler'',
      ''filename'' \<mapsto> VStr ''app.log'',
      ''maxBytes'' \<mapsto> VInt 1048576]"

definition plain_world :: world where
  "plain_world =
     worker_world
       \<lparr>safe_load :=
          (\<lambda>t. Inr (Mapping (Config (Some [(''file'', plain_handler)])
                                 [''version'' \<mapsto> VInt 1])))\<rparr>"


definition locked_world :: world where
  "locked_world =
     missing_world
       \<lparr>open_file :=
          (\<lambda>p. Inl (Exc (OtherException ''PermissionError'') ''Permission denied''
                        None))\<rparr>"

definition broken_world :: world where
  "broken_world =
     worker_world
       \<lparr>dictConfig :=
          (\<lambda>d. Some (Exc (OtherException ''ValueError'')
                        ''Unable to configure handler'' None))\<rparr>"

section \<open>Properties of the registry\<close>

lemma getattr_issues_store [simp]:
  "getattr_error_code (issues_store s n c) d = getattr_error_code s d"
  by (simp add: getattr_error_code_def issues_store_def)

lemma getattr_setattr_same [simp]:
  "getattr_error_code (setattr_error_code s c k) c = Some k"
  by (simp add: getattr_error_code_def setattr_error_code_def)

lemma issues_setattr [simp]: "issues (setattr_error_code s c k) = issues s"
  by (simp add: setattr_error_code_def)

lemma issues_issues_store [simp]: "issues (issues_store s n c) = (issues s)(n \<mapsto> c)"
  by (simp add: issues_store_def)

lemma class_name_setattr [simp]: "class_name (setattr_error_code s c k) = class_name s"
  by (simp add: setattr_error_code_def)

lemma class_name_issues_store [simp]: "class_name (issues_store s n c) = class_name s"
  by (simp add: issues_store_def)

lemma error_code_attr_issues_store [simp]:
  "error_code_attr (issues_store s n c) = error_code_attr s"
  by (simp add: issues_store_def)

text \<open>
  \<open>perform\<close> is \<open>register\<close>, followed by the call of the decorator in the second and the
  fourth shape; the branches of \<open>perform\<close> for another outcome are not taken.
\<close>

lemma perform_follows_register:
  "register s (Name n) (Some c) code = Inr (perform s (Direct n c code), Returned c)"
  "register s (Name n) None code = Inr (s, Decorator (NamedDecorator n code))"
  "perform s (ByName n code c) = fst (decorator s (NamedDecorator n code) c)"
  "register s (Class c) None code = Inr (perform s (Bare c code), Returned c)"
  "register s NoArg None (Some k) = Inr (s, Decorator (CodeDecorator k))"
  "perform s (ByCode k c) = fst (decorator s (CodeDecorator k) c)"
  by (simp_all add: Let_def)

lemma perform_issues:
  "issues (perform s r) = (issues s)(stored_name s r \<mapsto> kind_of r)"
  by (cases r) (auto simp: Let_def split: option.splits)

lemma perform_class_mro: "class_mro (perform s r) = class_mro s"
  by (cases r) (auto simp: Let_def issues_store_def setattr_error_code_def split: option.splits)

lemma perform_getattr_kind:
  "getattr_error_code (perform s r) (kind_of r) =
     (case supplied_code r of
        None \<Rightarrow> getattr_error_code s (kind_of r)
      | Some k \<Rightarrow> if is_bare r \<and> hasattr_error_code s (kind_of r)
                  then getattr_error_code s (kind_of r) else Some k)"
  by (cases r) (auto simp: Let_def hasattr_error_code_def split: option.splits)

lemma perform_getattr_code:
  "supplied_code r = Some k \<Longrightarrow> \<not> (is_bare r \<and> hasattr_error_code s (kind_of r)) \<Longrightarrow>
   getattr_error_code (perform s r) (kind_of r) = Some k"
  by (auto simp: perform_getattr_kind)

lemma perform_no_code:
  "supplied_code r = None \<Longrightarrow> error_code_attr (perform s r) = error_code_attr s"
  by (cases r) (auto simp: Let_def split: option.splits)

lemma perform_no_code_getattr:
  "supplied_code r = None \<Longrightarrow> getattr_error_code (perform s r) d = getattr_error_code s d"
  by (simp add: getattr_error_code_def perform_no_code perform_class_mro)

lemma perform_bare_keeps:
  "hasattr_error_code s c \<Longrightarrow> error_code_attr (perform s (Bare c code)) = error_code_attr s"
  by (cases code) (auto simp: Let_def hasattr_error_code_def)

lemma perform_bare_getattr:
  assumes "hasattr_error_code s c"
  shows "getattr_error_code (perform s (Bare c code)) d = getattr_error_code s d"
proof -
  have "error_code_attr (perform s (Bare c code)) = error_code_attr s"
    using assms by (rule perform_bare_keeps)
  moreover have "class_mro (perform s (Bare c code)) = class_mro s"
    by (rule perform_class_mro)
  ultimately show ?thesis
    by (simp only: getattr_error_code_def)
qed

lemma get_all_same_kind:
  "get_all_issues s n1 = Some (c, k1) \<Longrightarrow> get_all_issues s n2 = Some (c, k2) \<Longrightarrow> k1 = k2"
  by (auto simp: get_all_issues_def split: option.splits)

lemma perform_code_everywhere:
  "supplied_code r = Some k \<Longrightarrow> \<not> (is_bare r \<and> hasattr_error_code s (kind_of r)) \<Longrightarrow>
   get (perform s r) n = Some (kind_of r) \<Longrightarrow>
   get_all_issues (perform s r) n = Some (kind_of r, Some k)"
  using perform_getattr_code [of r k s] by (simp add: get_all_issues_def get_def)

lemma usage_names_shapes: "\<exists>p q. usage_message = p @ shape_text sh @ q"
proof (cases sh)
  case NameAndClass
  show ?thesis unfolding NameAndClass
    by (rule exI[of _ "''Invalid usage. Expected either:'' @ [CHR 0x0A] @ ''1) ''"],
        rule exI[of _ "'','' @ [CHR 0x0A] @
     ''2) @register('' @ [CHR 0x27] @ ''Name'' @ [CHR 0x27] @ '', code=''
       @ [CHR 0x27] @ ''...'' @ [CHR 0x27] @ ''),'' @ [CHR 0x0A] @
     ''3) @register (no arguments), or'' @ [CHR 0x0A] @
     ''4) @register(code='' @ [CHR 0x27] @ ''...'' @ [CHR 0x27]
       @ '') where class name is used.''"]) (simp add: usage_message_def)
next
  case NameOnly
  show ?thesis unfolding NameOnly
    by (rule exI[of _ "''Invalid usage. Expected either:'' @ [CHR 0x0A] @
     ''1) register('' @ [CHR 0x27] @ ''Name'' @ [CHR 0x27] @ '', class_obj, code=''
       @ [CHR 0x27] @ ''...'' @ [CHR 0x27] @ ''),'' @ [CHR 0x0A] @ ''2) ''"],
        rule exI[of _ "'','' @ [CHR 0x0A] @
     ''3) @register (no arguments), or'' @ [CHR 0x0A] @
     ''4) @register(code='' @ [CHR 0x27] @ ''...'' @ [CHR 0x27]
       @ '') where class name is used.''"]) (simp add: usage_message_def)
next
  case ClassOnly
  show ?thesis unfolding ClassOnly
    by (rule exI[of _ "''Invalid usage. Expected either:'' @ [CHR 0x0A] @
     ''1) register('' @ [CHR 0x27] @ ''Name'' @ [CHR 0x27] @ '', class_obj, code=''
       @ [CHR 0x27] @ ''...'' @ [CHR 0x27] @ ''),'' @ [CHR 0x0A] @
     ''2) @register('' @ [CHR 0x27] @ ''Name'' @ [CHR 0x27] @ '', code=''
       @ [CHR 0x27] @ ''...'' @ [CHR 0x27] @ ''),'' @ [CHR 0x0A] @ ''3) ''"],
        rule exI[of _ "'', or'' @ [CHR 0x0A] @
     ''4) @register(code='' @ [CHR 0x27] @ ''...'' @ [CHR 0x27]
       @ '') where class name is used.''"]) (simp add: usage_message_def)
next
  case CodeOnly
  show ?thesis unfolding CodeOnly
    by (rule exI[of _ "''Invalid usage. Expected either:'' @ [CHR 0x0A] @
     ''1) register('' @ [CHR 0x27] @ ''Name'' @ [CHR 0x27] @ '', class_obj, code=''
       @ [CHR 0x27] @ ''...'' @ [CHR 0x27] @ ''),'' @ [CHR 0x0A] @
     ''2) @register('' @ [CHR 0x27] @ ''Name'' @ [CHR 0x27] @ '', code=''
       @ [CHR 0x27] @ ''...'' @ [CHR 0x27] @ ''),'' @ [CHR 0x0A] @
     ''3) @register (no arguments), or'' @ [CHR 0x0A] @ ''4) ''"],
        rule exI[of _ "'' where class name is used.''"]) (simp add: usage_message_def)
qed

lemma register_rejects:
  "accepted_shape a c code = None \<Longrightarrow>
     register s a c code = Inl (Exc TypeError usage_message None)"
  by (induction a c code rule: accepted_shape.induct) simp_all

lemma register_accepts:
  "accepted_shape a c code \<noteq> None \<Longrightarrow> \<exists>r. register s a c code = Inr r"
  by (induction a c code rule: accepted_shape.induct) (simp_all add: Let_def)

text \<open>
  C2, as amended. A call of \<open>register\<close> whose arguments match none of the four accepted
  shapes raises the \<open>TypeError\<close> of the source (the registration usage error), and its
  message names each of the four shapes; a call that matches one of them raises nothing.
  A call that supplies only a name, with no class and no code, is not among the failing
  calls: it is the second shape and returns a decorator, leaving the registry as it was.
\<close>

theorem register_invalid_usage:
  "(accepted_shape a c code = None \<longrightarrow>
      register s a c code = Inl (Exc TypeError usage_message None)) \<and>
   (accepted_shape a c code \<noteq> None \<longrightarrow> (\<exists>r. register s a c code = Inr r)) \<and>
   (\<forall>sh. \<exists>p q. usage_message = p @ shape_text sh @ q) \<and>
   accepted_shape (Name n) None None = Some NameOnly \<and>
   register s (Name n) None None = Inr (s, Decorator (NamedDecorator n None))"
  using register_rejects register_accepts usage_names_shapes by simp

theorem register_invalid_usage_witness:
  "accepted_shape NoArg (Some 1) (Some ''E1001'') = None \<and>
   register example_store NoArg (Some 1) (Some ''E1001'')
     = Inl (Exc TypeError usage_message None) \<and>
   accepted_shape (Class 0) None None \<noteq> None \<and>
   (\<exists>r. register example_store (Class 0) None None = Inr r)"
  using register_invalid_usage [of NoArg "Some 1" "Some ''E1001''" example_store]
    register_invalid_usage [of "Class 0" None None example_store]
  by simp

text \<open>
  The claim as it was stated fails: \<open>register("MyCustomError")\<close>, a name with no class and
  no code, does not raise.
\<close>

theorem name_only_counterexample:
  "\<not> isl (register example_store (Name ''MyCustomError'') None None)"
  by simp

text \<open>
  C3, as amended. After a registration in any of the four shapes, \<open>get\<close> with the stored
  name returns the registered class, and \<open>get_all_issues\<close> maps that name to that class
  and to the code the class carries. That code is the code supplied, except that a
  registration of the class alone writes the supplied code only to a class that carries
  none (the \<open>not hasattr\<close> guard of the source), and a registration that supplies no code
  leaves the code the class already carries or inherits; the code is absent only if the
  class carried none.
\<close>

theorem registration_then_get:
  "get (perform s r) (stored_name s r) = Some (kind_of r) \<and>
   get_all_issues (perform s r) (stored_name s r) =
     Some (kind_of r,
           case supplied_code r of
             None \<Rightarrow> getattr_error_code s (kind_of r)
           | Some k \<Rightarrow> if is_bare r \<and> hasattr_error_code s (kind_of r)
                       then getattr_error_code s (kind_of r) else Some k)"
  by (simp add: get_def get_all_issues_def perform_issues perform_getattr_kind)

theorem registration_then_get_witness:
  "get (perform example_store (ByCode ''E1003'' 1)) ''RateError'' = Some 1 \<and>
   get_all_issues (perform example_store (ByCode ''E1003'' 1)) ''RateError''
     = Some (1, Some ''E1003'')"
proof -
  have n: "stored_name example_store (ByCode ''E1003'' 1) = ''RateError''"
    by (simp add: example_store_def)
  show ?thesis
    using registration_then_get [of example_store "ByCode ''E1003'' 1"]
    unfolding n by simp
qed

text \<open>
  The claim as it was stated fails twice. A class that carries \<open>E2001\<close> and is registered
  alone with the code \<open>E3000\<close> keeps \<open>E2001\<close>; and a subclass registered with no code is
  reported with the code of its registered parent, not with an absent code.
\<close>

theorem registration_code_counterexample:
  "get_all_issues
     (perform (perform example_store (Direct ''QuotaExceeded'' 0 (Some ''E2001'')))
        (Bare 0 (Some ''E3000'')))
     ''QuotaError'' = Some (0, Some ''E2001'') \<and>
   get_all_issues (perform (perform example_store (ByCode ''E2001'' 0)) (Bare 2 None))
     ''ChildError'' = Some (2, Some ''E2001'')"
  by (simp add: example_store_def get_all_issues_def Let_def hasattr_error_code_def
        getattr_error_code_def setattr_error_code_def issues_store_def)

text \<open>
  C4, as amended. A registration that supplies no code stores its class under its name
  and changes the \<open>_error_code\<close> of no class: a code, once set on a class, is not cleared
  by a registration that omits a code. The code lives on the class and not on the name,
  so after the name is registered again with another class, \<open>get_all_issues\<close> reports
  for the name the code the new class carries; the earlier code is still reported
  exactly when the new class carries it, as when the same class is registered again.
\<close>

theorem reregistration_without_code:
  "supplied_code r = None \<Longrightarrow>
     get (perform s r) (stored_name s r) = Some (kind_of r) \<and>
     (\<forall>d. getattr_error_code (perform s r) d = getattr_error_code s d) \<and>
     get_all_issues (perform s r) (stored_name s r) =
       Some (kind_of r, getattr_error_code s (kind_of r))"
  by (simp add: get_def get_all_issues_def perform_issues perform_no_code_getattr)

theorem reregistration_without_code_witness:
  "supplied_code (Direct ''QuotaExceeded'' 0 None) = None \<and>
   get_all_issues
     (perform (perform example_store (Direct ''QuotaExceeded'' 0 (Some ''E2001'')))
        (Direct ''QuotaExceeded'' 0 None))
     ''QuotaExceeded'' = Some (0, Some ''E2001'')"
proof -
  let ?s = "perform example_store (Direct ''QuotaExceeded'' 0 (Some ''E2001''))"
  have h: "supplied_code (Direct ''QuotaExceeded'' 0 None) = None" by simp
  have g: "getattr_error_code ?s 0 = Some ''E2001''" by (simp add: Let_def)
  show ?thesis
    using reregistration_without_code [OF h, of ?s] g by simp
qed

text \<open>
  The claim as it was stated fails: \<open>QuotaExceeded\<close> is registered with class 0 and the
  code \<open>E2001\<close>, then with class 1 and no code, and \<open>get_all_issues\<close> no longer reports
  \<open>E2001\<close> for it.
\<close>

theorem reregistration_counterexample:
  "get_all_issues (perform example_store (Direct ''QuotaExceeded'' 0 (Some ''E2001'')))
     ''QuotaExceeded'' = Some (0, Some ''E2001'') \<and>
   get_all_issues
     (perform (perform example_store (Direct ''QuotaExceeded'' 0 (Some ''E2001'')))
        (Direct ''QuotaExceeded'' 1 None))
     ''QuotaExceeded'' = Some (1, None)"
  by (simp add: example_store_def get_all_issues_def Let_def
        getattr_error_code_def setattr_error_code_def issues_store_def)

text \<open>
  C9, as amended. The code is the \<open>_error_code\<close> attribute of the class and not a field
  of the registered name, so \<open>get_all_issues\<close> reports the same code for any two names
  registered to the same class. A later registration of that class with a new code, in
  the first, second or fourth shape, or in the third when the class carries no code,
  changes the code reported under every name mapped to the class. A registration of the
  class alone with a new code, when the class already carries a code, changes the code of
  no class.
\<close>

theorem code_shared_by_kind:
  "(get_all_issues s n1 = Some (c, k1) \<and> get_all_issues s n2 = Some (c, k2) \<longrightarrow> k1 = k2) \<and>
   (supplied_code r = Some k \<and> \<not> (is_bare r \<and> hasattr_error_code s (kind_of r)) \<and>
    get (perform s r) n = Some (kind_of r)
      \<longrightarrow> get_all_issues (perform s r) n = Some (kind_of r, Some k)) \<and>
   (hasattr_error_code s c
      \<longrightarrow> (\<forall>d. getattr_error_code (perform s (Bare c code)) d = getattr_error_code s d))"
  using get_all_same_kind [of s n1 c k1 n2 k2] perform_code_everywhere [of r k s n]
    perform_bare_getattr [of s c code]
  by blast

theorem code_shared_by_kind_witness:
  "get_all_issues
     (perform
        (perform (perform example_store (Direct ''QuotaExceeded'' 0 (Some ''E2001'')))
           (Direct ''OverQuota'' 0 None))
        (ByCode ''E2002'' 0)) ''OverQuota'' = Some (0, Some ''E2002'') \<and>
   get_all_issues
     (perform
        (perform (perform example_store (Direct ''QuotaExceeded'' 0 (Some ''E2001'')))
           (Direct ''OverQuota'' 0 None))
        (ByCode ''E2002'' 0)) ''QuotaExceeded'' = Some (0, Some ''E2002'') \<and>
   getattr_error_code
     (perform
        (perform (perform example_store (Direct ''QuotaExceeded'' 0 (Some ''E2001'')))
           (Direct ''OverQuota'' 0 None))
        (Bare 0 (Some ''E2002''))) 0 = Some ''E2001''"
proof -
  let ?s = "perform (perform example_store (Direct ''QuotaExceeded'' 0 (Some ''E2001'')))
              (Direct ''OverQuota'' 0 None)"
  let ?r = "ByCode ''E2002'' 0"
  have h: "supplied_code ?r = Some ''E2002''"
    "\<not> (is_bare ?r \<and> hasattr_error_code ?s (kind_of ?r))"
    "get (perform ?s ?r) ''OverQuota'' = Some (kind_of ?r)"
    "get (perform ?s ?r) ''QuotaExceeded'' = Some (kind_of ?r)"
    by (simp_all add: get_def Let_def example_store_def)
  have g: "getattr_error_code ?s 0 = Some ''E2001''"
    by (simp add: Let_def)
  then have k: "hasattr_error_code ?s 0" by (simp add: hasattr_error_code_def)
  have 1: "get_all_issues (perform ?s ?r) ''OverQuota'' = Some (0, Some ''E2002'')"
    using code_shared_by_kind
      [where r = ?r and k = "''E2002''" and s = ?s and n = "''OverQuota''"] h
    by simp
  have 2: "get_all_issues (perform ?s ?r) ''QuotaExceeded'' = Some (0, Some ''E2002'')"
    using code_shared_by_kind
      [where r = ?r and k = "''E2002''" and s = ?s and n = "''QuotaExceeded''"] h
    by simp
  have 3: "getattr_error_code (perform ?s (Bare 0 (Some ''E2002''))) 0 = Some ''E2001''"
    using code_shared_by_kind [where s = ?s and c = 0 and code = "Some ''E2002''"] k g
    by simp
  show ?thesis using 1 2 3 by simp
qed

text \<open>
  The claim as it was stated fails: two names are registered to class 0, which carries
  \<open>E2001\<close>; the class is then registered alone with the new code \<open>E2002\<close>, and both names
  are still reported with \<open>E2001\<close>.
\<close>

theorem code_shared_counterexample:
  "get_all_issues
     (perform
        (perform (perform example_store (Direct ''QuotaExceeded'' 0 (Some ''E2001'')))
           (Direct ''OverQuota'' 0 None))
        (Bare 0 (Some ''E2002''))) ''QuotaExceeded'' = Some (0, Some ''E2001'') \<and>
   get_all_issues
     (perform
        (perform (perform example_store (Direct ''QuotaExceeded'' 0 (Some ''E2001'')))
           (Direct ''OverQuota'' 0 None))
        (Bare 0 (Some ''E2002''))) ''OverQuota'' = Some (0, Some ''E2001'')"
  by (simp add: example_store_def get_all_issues_def Let_def hasattr_error_code_def
        getattr_error_code_def setattr_error_code_def issues_store_def)

section \<open>Properties of the adapter\<close>

lemma process_fst: "fst (process s msg kwargs) = msg"
  by (simp add: process_def Let_def)

lemma process_extra:
  "kwargs_extra (snd (process s msg kwargs)) =
     setdefault (kwargs_extra kwargs) ''error_code''
       (VStr (resolve_error_code s (kwargs_extra kwargs)))"
  by (simp add: process_def Let_def kwargs_extra_def)

lemma process_other: "kw_other (snd (process s msg kwargs)) = kw_other kwargs"
  by (simp add: process_def Let_def)

lemma setdefault_other: "key \<noteq> k \<Longrightarrow> setdefault d k v key = d key"
  by (simp add: setdefault_def split: option.splits)

lemma setdefault_present: "d k = Some u \<Longrightarrow> setdefault d k v k = Some u"
  by (simp add: setdefault_def)

lemma setdefault_absent: "d k = None \<Longrightarrow> setdefault d k v k = Some v"
  by (simp add: setdefault_def)

lemma setdefault_defined: "\<exists>u. setdefault d k v k = Some u"
  by (cases "d k") (simp_all add: setdefault_def)

lemma resolve_registered_code:
  "extra ''issue'' = Some (VStr name) \<Longrightarrow> name \<noteq> [] \<Longrightarrow> get s name = Some c \<Longrightarrow>
   getattr_error_code s c = Some k \<Longrightarrow> resolve_error_code s extra = k"
  by (simp add: resolve_error_code_def)

lemma resolve_registered_no_code:
  "extra ''issue'' = Some (VStr name) \<Longrightarrow> get s name = Some c \<Longrightarrow>
   getattr_error_code s c = None \<Longrightarrow> resolve_error_code s extra = ''XXX''"
  by (simp add: resolve_error_code_def)

lemma resolve_unregistered:
  "extra ''issue'' = Some (VStr name) \<Longrightarrow> get s name = None \<Longrightarrow>
   resolve_error_code s extra = ''XXX''"
  by (simp add: resolve_error_code_def)

lemma resolve_absent: "extra ''issue'' = None \<Longrightarrow> resolve_error_code s extra = ''XXX''"
  by (simp add: resolve_error_code_def)

lemma resolve_falsy:
  "extra ''issue'' = Some v \<Longrightarrow> \<not> truthy v \<Longrightarrow> resolve_error_code s extra = ''XXX''"
  by (simp add: resolve_error_code_def)

text \<open>
  C1, as amended. \<open>process\<close> takes no level, so what follows holds for a log call at any
  level. The extension that \<open>process\<close> forwards always has the key \<open>error_code\<close>. A value
  the caller supplied under that key is forwarded as it is. When the caller supplied
  none: if \<open>issue\<close> is a non-empty name of a registered class that carries a code, the
  value is that code; if the registered class carries no code, if the name is not
  registered, or if there is no \<open>issue\<close> key, the value is the sentinel \<open>XXX\<close>.
\<close>

theorem process_error_code:
  "(\<exists>v. kwargs_extra (snd (process s msg kwargs)) ''error_code'' = Some v) \<and>
   (\<forall>v. kwargs_extra kwargs ''error_code'' = Some v \<longrightarrow>
      kwargs_extra (snd (process s msg kwargs)) ''error_code'' = Some v) \<and>
   (kwargs_extra kwargs ''error_code'' = None \<longrightarrow>
      (\<forall>name c k. kwargs_extra kwargs ''issue'' = Some (VStr name) \<and> name \<noteq> [] \<and>
           get s name = Some c \<and> getattr_error_code s c = Some k \<longrightarrow>
         kwargs_extra (snd (process s msg kwargs)) ''error_code'' = Some (VStr k)) \<and>
      (\<forall>name c. kwargs_extra kwargs ''issue'' = Some (VStr name) \<and>
           get s name = Some c \<and> getattr_error_code s c = None \<longrightarrow>
         kwargs_extra (snd (process s msg kwargs)) ''error_code'' = Some (VStr ''XXX'')) \<and>
      (\<forall>name. kwargs_extra kwargs ''issue'' = Some (VStr name) \<and> get s name = None \<longrightarrow>
         kwargs_extra (snd (process s msg kwargs)) ''error_code'' = Some (VStr ''XXX'')) \<and>
      (kwargs_extra kwargs ''issue'' = None \<longrightarrow>
         kwargs_extra (snd (process s msg kwargs)) ''error_code'' = Some (VStr ''XXX'')))"
proof (intro conjI impI allI)
  show "\<exists>v. kwargs_extra (snd (process s msg kwargs)) ''error_code'' = Some v"
    by (simp add: process_extra setdefault_defined)
next
  fix v assume "kwargs_extra kwargs ''error_code'' = Some v"
  then show "kwargs_extra (snd (process s msg kwargs)) ''error_code'' = Some v"
    by (simp add: process_extra setdefault_present)
next
  fix name c k
  assume "kwargs_extra kwargs ''error_code'' = None"
    and "kwargs_extra kwargs ''issue'' = Some (VStr name) \<and> name \<noteq> [] \<and>
           get s name = Some c \<and> getattr_error_code s c = Some k"
  then show "kwargs_extra (snd (process s msg kwargs)) ''error_code'' = Some (VStr k)"
    by (simp add: process_extra setdefault_absent resolve_registered_code)
next
  fix name c
  assume "kwargs_extra kwargs ''error_code'' = None"
    and "kwargs_extra kwargs ''issue'' = Some (VStr name) \<and>
           get s name = Some c \<and> getattr_error_code s c = None"
  then show "kwargs_extra (snd (process s msg kwargs)) ''error_code'' = Some (VStr ''XXX'')"
    by (simp add: process_extra setdefault_absent resolve_registered_no_code)
next
  fix name
  assume "kwargs_extra kwargs ''error_code'' = None"
    and "kwargs_extra kwargs ''issue'' = Some (VStr name) \<and> get s name = None"
  then show "kwargs_extra (snd (process s msg kwargs)) ''error_code'' = Some (VStr ''XXX'')"
    by (simp add: process_extra setdefault_absent resolve_unregistered)
next
  assume "kwargs_extra kwargs ''error_code'' = None" and "kwargs_extra kwargs ''issue'' = None"
  then show "kwargs_extra (snd (process s msg kwargs)) ''error_code'' = Some (VStr ''XXX'')"
    by (simp add: process_extra setdefault_absent resolve_absent)
qed

theorem process_error_code_witness:
  "kwargs_extra
     (snd (process (perform example_store (Direct ''QuotaExceeded'' 0 (Some ''E2001'')))
        ''DUMMY ERROR.''
        \<lparr>kw_extra = Some [''issue'' \<mapsto> VStr ''QuotaExceeded''], kw_other = ()\<rparr>))
     ''error_code'' = Some (VStr ''E2001'') \<and>
   kwargs_extra
     (snd (process (perform example_store (Direct ''QuotaExceeded'' 0 (Some ''E2001'')))
        ''DUMMY ERROR.''
        \<lparr>kw_extra = Some [''issue'' \<mapsto> VStr ''QuotaExceeded'',
                            ''error_code'' \<mapsto> VStr ''E9999''],
         kw_other = ()\<rparr>)) ''error_code'' = Some (VStr ''E9999'') \<and>
   kwargs_extra
     (snd (process (perform example_store (Bare 1 None)) ''DUMMY ERROR.''
        \<lparr>kw_extra = Some [''issue'' \<mapsto> VStr ''RateError''], kw_other = ()\<rparr>))
     ''error_code'' = Some (VStr ''XXX'') \<and>
   kwargs_extra
     (snd (process example_store ''DUMMY ERROR.''
        \<lparr>kw_extra = Some [''issue'' \<mapsto> VStr ''NeverRegistered''], kw_other = ()\<rparr>))
     ''error_code'' = Some (VStr ''XXX'') \<and>
   kwargs_extra
     (snd (process example_store ''ERROR.'' \<lparr>kw_extra = None, kw_other = ()\<rparr>))
     ''error_code'' = Some (VStr ''XXX'')"
proof -
  let ?quota = "perform example_store (Direct ''QuotaExceeded'' 0 (Some ''E2001''))"
  let ?rate = "perform example_store (Bare 1 None)"
  let ?named = "\<lparr>kw_extra = Some [''issue'' \<mapsto> VStr ''QuotaExceeded''], kw_other = ()\<rparr>"
  let ?own = "\<lparr>kw_extra = Some [''issue'' \<mapsto> VStr ''QuotaExceeded'',
                                  ''error_code'' \<mapsto> VStr ''E9999''],
               kw_other = ()\<rparr>"
  let ?nocode = "\<lparr>kw_extra = Some [''issue'' \<mapsto> VStr ''RateError''], kw_other = ()\<rparr>"
  let ?unknown = "\<lparr>kw_extra = Some [''issue'' \<mapsto> VStr ''NeverRegistered''], kw_other = ()\<rparr>"
  let ?bare = "\<lparr>kw_extra = None, kw_other = ()\<rparr>"
  have a: "kwargs_extra ?named ''error_code'' = None"
    "kwargs_extra ?named ''issue'' = Some (VStr ''QuotaExceeded'')"
    "''QuotaExceeded'' \<noteq> []"
    "get ?quota ''QuotaExceeded'' = Some 0"
    "getattr_error_code ?quota 0 = Some ''E2001''"
    by (simp_all add: kwargs_extra_def get_def Let_def)
  have b: "kwargs_extra ?own ''error_code'' = Some (VStr ''E9999'')"
    by (simp add: kwargs_extra_def)
  have c: "kwargs_extra ?nocode ''error_code'' = None"
    "kwargs_extra ?nocode ''issue'' = Some (VStr ''RateError'')"
    "get ?rate ''RateError'' = Some 1"
    "getattr_error_code ?rate 1 = None"
    by (simp_all add: kwargs_extra_def get_def Let_def example_store_def
          getattr_error_code_def issues_store_def)
  have d: "kwargs_extra ?unknown ''error_code'' = None"
    "kwargs_extra ?unknown ''issue'' = Some (VStr ''NeverRegistered'')"
    "get example_store ''NeverRegistered'' = None"
    by (simp_all add: kwargs_extra_def get_def example_store_def)
  have e: "kwargs_extra ?bare ''error_code'' = None" "kwargs_extra ?bare ''issue'' = None"
    by (simp_all add: kwargs_extra_def)
  have 1: "kwargs_extra (snd (process ?quota ''DUMMY ERROR.'' ?named)) ''error_code''
             = Some (VStr ''E2001'')"
    using process_error_code [of ?quota "''DUMMY ERROR.''" ?named] a by blast
  have 2: "kwargs_extra (snd (process ?quota ''DUMMY ERROR.'' ?own)) ''error_code''
             = Some (VStr ''E9999'')"
    using process_error_code [of ?quota "''DUMMY ERROR.''" ?own] b by blast
  have 3: "kwargs_extra (snd (process ?rate ''DUMMY ERROR.'' ?nocode)) ''error_code''
             = Some (VStr ''XXX'')"
    using process_error_code [of ?rate "''DUMMY ERROR.''" ?nocode] c by blast
  have 4: "kwargs_extra (snd (process example_store ''DUMMY ERROR.'' ?unknown)) ''error_code''
             = Some (VStr ''XXX'')"
    using process_error_code [of example_store "''DUMMY ERROR.''" ?unknown] d by blast
  have 5: "kwargs_extra (snd (process example_store ''ERROR.'' ?bare)) ''error_code''
             = Some (VStr ''XXX'')"
    using process_error_code [of example_store "''ERROR.''" ?bare] e by blast
  show ?thesis using 1 2 3 4 5 by simp
qed

text \<open>
  The claim as it was stated fails twice. \<open>QuotaExceeded\<close> is registered with the code
  \<open>E2001\<close>, the call names it and supplies its own \<open>error_code\<close>, and the forwarded value
  is the caller's, not the entry's. \<open>RateError\<close> is registered with no code, the call
  names it, and the forwarded value is \<open>XXX\<close> although the entry has no code.
\<close>

theorem error_code_counterexample:
  "get_all_issues (perform example_store (Direct ''QuotaExceeded'' 0 (Some ''E2001'')))
     ''QuotaExceeded'' = Some (0, Some ''E2001'') \<and>
   kwargs_extra
     (snd (process (perform example_store (Direct ''QuotaExceeded'' 0 (Some ''E2001'')))
        ''DUMMY ERROR.''
        \<lparr>kw_extra = Some [''issue'' \<mapsto> VStr ''QuotaExceeded'',
                            ''error_code'' \<mapsto> VStr ''E9999''],
         kw_other = ()\<rparr>)) ''error_code'' = Some (VStr ''E9999'') \<and>
   get_all_issues (perform example_store (Bare 1 None)) ''RateError'' = Some (1, None) \<and>
   kwargs_extra
     (snd (process (perform example_store (Bare 1 None)) ''DUMMY ERROR.''
        \<lparr>kw_extra = Some [''issue'' \<mapsto> VStr ''RateError''], kw_other = ()\<rparr>))
     ''error_code'' = Some (VStr ''XXX'')"
  by (simp add: example_store_def get_all_issues_def Let_def getattr_error_code_def
       setattr_error_code_def issues_store_def process_def kwargs_extra_def setdefault_def
       resolve_error_code_def get_def)

text \<open>
  C5. \<open>process\<close> returns the message as it came and leaves the other keyword arguments
  alone. Every key of the extension other than \<open>error_code\<close> is forwarded with the value
  it had. A value the caller supplied under \<open>error_code\<close> is not overwritten; the
  resolved code is stored under that key only when the caller supplied none.
\<close>

theorem process_set_if_absent:
  "fst (process s msg kwargs) = msg \<and>
   kw_other (snd (process s msg kwargs)) = kw_other kwargs \<and>
   (\<forall>key. key \<noteq> ''error_code'' \<longrightarrow>
      kwargs_extra (snd (process s msg kwargs)) key = kwargs_extra kwargs key) \<and>
   (\<forall>v. kwargs_extra kwargs ''error_code'' = Some v \<longrightarrow>
      kwargs_extra (snd (process s msg kwargs)) ''error_code'' = Some v) \<and>
   (kwargs_extra kwargs ''error_code'' = None \<longrightarrow>
      kwargs_extra (snd (process s msg kwargs)) ''error_code'' =
        Some (VStr (resolve_error_code s (kwargs_extra kwargs))))"
  by (simp add: process_fst process_other process_extra setdefault_other setdefault_present
        setdefault_absent)

theorem process_set_if_absent_witness:
  "''user'' \<noteq> ''error_code'' \<and>
   kwargs_extra
     \<lparr>kw_extra = Some [''user'' \<mapsto> VInt 7, ''error_code'' \<mapsto> VStr ''E9999''],
      kw_other = True\<rparr> ''error_code'' = Some (VStr ''E9999'') \<and>
   kwargs_extra
     (snd (process example_store ''ERROR.''
        \<lparr>kw_extra = Some [''user'' \<mapsto> VInt 7, ''error_code'' \<mapsto> VStr ''E9999''],
         kw_other = True\<rparr>)) ''user'' = Some (VInt 7) \<and>
   kwargs_extra
     (snd (process example_store ''ERROR.''
        \<lparr>kw_extra = Some [''user'' \<mapsto> VInt 7, ''error_code'' \<mapsto> VStr ''E9999''],
         kw_other = True\<rparr>)) ''error_code'' = Some (VStr ''E9999'') \<and>
   kwargs_extra \<lparr>kw_extra = None, kw_other = True\<rparr> ''error_code'' = None \<and>
   kwargs_extra
     (snd (process example_store ''ERROR.'' \<lparr>kw_extra = None, kw_other = True\<rparr>))
     ''error_code'' = Some (VStr ''XXX'')"
proof -
  let ?kw = "\<lparr>kw_extra = Some [''user'' \<mapsto> VInt 7, ''error_code'' \<mapsto> VStr ''E9999''],
              kw_other = True\<rparr>"
  let ?bare = "\<lparr>kw_extra = None, kw_other = True\<rparr>"
  have h1: "''user'' \<noteq> ''error_code''" by simp
  have h2: "kwargs_extra ?kw ''error_code'' = Some (VStr ''E9999'')"
    by (simp add: kwargs_extra_def)
  have h3: "kwargs_extra ?kw ''user'' = Some (VInt 7)"
    by (simp add: kwargs_extra_def)
  have h4: "kwargs_extra ?bare ''error_code'' = None"
    by (simp add: kwargs_extra_def)
  have h5: "resolve_error_code example_store (kwargs_extra ?bare) = ''XXX''"
    by (simp add: kwargs_extra_def resolve_error_code_def)
  show ?thesis
    using process_set_if_absent [of example_store "''ERROR.''" ?kw]
      process_set_if_absent [of example_store "''ERROR.''" ?bare] h1 h2 h3 h4 h5
    by metis
qed

text \<open>
  C10. When the extension has an \<open>issue\<close> key with a falsy value, the registry is not
  consulted, whatever is registered under that value: the code resolved is the sentinel
  \<open>XXX\<close>, the same as for the extension without the key, and it is what \<open>process\<close>
  stores under \<open>error_code\<close> by \<open>setdefault\<close>.
\<close>

theorem falsy_issue_fallback:
  assumes "kwargs_extra kwargs ''issue'' = Some v" and "\<not> truthy v"
  shows "resolve_error_code s (kwargs_extra kwargs) = ''XXX'' \<and>
     resolve_error_code s (kwargs_extra kwargs) =
       resolve_error_code s ((kwargs_extra kwargs)(''issue'' := None)) \<and>
     process s msg kwargs =
       (msg, kwargs\<lparr>kw_extra :=
          Some (setdefault (kwargs_extra kwargs) ''error_code'' (VStr ''XXX''))\<rparr>) \<and>
     (kwargs_extra kwargs ''error_code'' = None \<longrightarrow>
        kwargs_extra (snd (process s msg kwargs)) ''error_code'' = Some (VStr ''XXX''))"
proof -
  have r: "resolve_error_code s (kwargs_extra kwargs) = ''XXX''"
    using assms by (rule resolve_falsy)
  have a: "resolve_error_code s ((kwargs_extra kwargs)(''issue'' := None)) = ''XXX''"
    by (rule resolve_absent) simp
  have p: "process s msg kwargs =
       (msg, kwargs\<lparr>kw_extra :=
          Some (setdefault (kwargs_extra kwargs) ''error_code'' (VStr ''XXX''))\<rparr>)"
    by (simp add: process_def Let_def r)
  show ?thesis using r a p by (simp add: kwargs_extra_def setdefault_absent)
qed

theorem falsy_issue_fallback_witness:
  "kwargs_extra \<lparr>kw_extra = Some [''issue'' \<mapsto> VStr []], kw_other = ()\<rparr> ''issue''
     = Some (VStr []) \<and>
   \<not> truthy (VStr []) \<and>
   get_all_issues (perform example_store (Direct [] 0 (Some ''E0000''))) []
     = Some (0, Some ''E0000'') \<and>
   kwargs_extra \<lparr>kw_extra = Some [''issue'' \<mapsto> VStr []], kw_other = ()\<rparr> ''error_code''
     = None \<and>
   kwargs_extra
     (snd (process (perform example_store (Direct [] 0 (Some ''E0000''))) ''ERROR.''
        \<lparr>kw_extra = Some [''issue'' \<mapsto> VStr []], kw_other = ()\<rparr>))
     ''error_code'' = Some (VStr ''XXX'')"
proof -
  let ?s = "perform example_store (Direct [] 0 (Some ''E0000''))"
  let ?kw = "\<lparr>kw_extra = Some [''issue'' \<mapsto> VStr []], kw_other = ()\<rparr>"
  have h1: "kwargs_extra ?kw ''issue'' = Some (VStr [])" by (simp add: kwargs_extra_def)
  have h2: "\<not> truthy (VStr [])" by simp
  have h3: "kwargs_extra ?kw ''error_code'' = None" by (simp add: kwargs_extra_def)
  have h4: "get_all_issues ?s [] = Some (0, Some ''E0000'')"
    by (simp add: get_all_issues_def Let_def)
  show ?thesis
    using falsy_issue_fallback [OF h1 h2, of ?s "''ERROR.''"] h1 h2 h3 h4 by blast
qed

section \<open>Properties of the facade\<close>

lemma emit_emit [simp]: "emit (emit st es) fs = emit st (es @ fs)"
  by (simp add: emit_def)

lemma events_emit [simp]: "events (emit st es) = events st @ es"
  by (simp add: emit_def)

lemma initialized_emit [simp]: "initialized (emit st es) = initialized st"
  by (simp add: emit_def)

lemma dirs_emit [simp]: "dirs (emit st es) = dirs st"
  by (simp add: emit_def)

lemma loads_emit: "loads (emit st es) = loads st + length (filter is_open es)"
  by (simp add: loads_def)

(* try_load_apply keeps the flag, adds exactly one OpenConfig *)
lemma try_load_apply_initialized:
  "initialized (fst (try_load_apply w path st)) = initialized st"
  by (simp add: try_load_apply_def Let_def split: sum.splits)

lemma try_load_apply_loads:
  "loads (fst (try_load_apply w path st)) = loads st + 1"
  by (simp add: try_load_apply_def Let_def loads_emit split: sum.splits)

lemma handle_initialized:
  "initialized (fst (handle_setup_exception r)) = initialized (fst r)"
  by (cases r) (simp add: handle_setup_exception_def split: option.splits)

lemma handle_loads:
  "loads (fst (handle_setup_exception r)) = loads (fst r)"
  by (cases r) (simp add: handle_setup_exception_def loads_emit split: option.splits)

lemma setup_logging_initialized:
  "initialized (fst (setup_logging w cp st)) = initialized st"
  by (simp add: setup_logging_def handle_initialized try_load_apply_initialized)

lemma setup_logging_loads:
  "loads (fst (setup_logging w cp st)) = loads st + 1"
  by (simp add: setup_logging_def handle_loads try_load_apply_loads)

lemma start_queue_listener_initialized:
  "initialized (fst (start_queue_listener w st)) = initialized st"
  by (simp add: start_queue_listener_def split: option.splits)

lemma start_queue_listener_loads:
  "loads (fst (start_queue_listener w st)) = loads st"
  by (simp add: start_queue_listener_def loads_emit split: option.splits)

lemma initialize_done: "initialized st \<Longrightarrow> initialize w st = (st, None)"
  by (simp add: initialize_def)

lemma initialize_returns:
  "initialize w st = (st', None) \<Longrightarrow> initialized st'"
  by (auto simp: initialize_def split: if_splits prod.splits option.splits)

lemma initialize_raises:
  assumes "\<not> initialized st" and "initialize w st = (st', Some e)"
  shows "\<not> initialized st'"
proof -
  obtain s1 r1 where s1: "setup_logging w None st = (s1, r1)" by (cases "setup_logging w None st")
  have i1: "\<not> initialized s1"
    using setup_logging_initialized [of w None st] s1 assms(1) by simp
  obtain s2 r2 where s2: "start_queue_listener w s1 = (s2, r2)"
    by (cases "start_queue_listener w s1")
  have i2: "\<not> initialized s2"
    using start_queue_listener_initialized [of w s1] s2 i1 by simp
  show ?thesis
    using assms s1 s2 i1 i2
    by (auto simp: initialize_def split: option.splits)
qed

lemma initialize_loads: "loads (fst (initialize w st)) \<le> loads st + 1"
proof (cases "initialized st")
  case True
  then show ?thesis by (simp add: initialize_done)
next
  case False
  obtain s1 r1 where s1: "setup_logging w None st = (s1, r1)" by (cases "setup_logging w None st")
  have l1: "loads s1 = loads st + 1"
    using setup_logging_loads [of w None st] s1 by simp
  obtain s2 r2 where s2: "start_queue_listener w s1 = (s2, r2)"
    by (cases "start_queue_listener w s1")
  have l2: "loads s2 = loads s1"
    using start_queue_listener_loads [of w s1] s2 by simp
  have "loads (s2\<lparr>initialized := True\<rparr>) = loads s2" by (simp add: loads_def)
  then show ?thesis
    using False s1 s2 l1 l2
    by (auto simp: initialize_def split: option.splits)
qed

lemma initialize_first_loads:
  "\<not> initialized st \<Longrightarrow> loads (fst (initialize w st)) = loads st + 1"
proof -
  assume False: "\<not> initialized st"
  obtain s1 r1 where s1: "setup_logging w None st = (s1, r1)" by (cases "setup_logging w None st")
  have l1: "loads s1 = loads st + 1"
    using setup_logging_loads [of w None st] s1 by simp
  obtain s2 r2 where s2: "start_queue_listener w s1 = (s2, r2)"
    by (cases "start_queue_listener w s1")
  have l2: "loads s2 = loads s1"
    using start_queue_listener_loads [of w s1] s2 by simp
  have "loads (s2\<lparr>initialized := True\<rparr>) = loads s2" by (simp add: loads_def)
  then show ?thesis
    using False s1 s2 l1 l2
    by (auto simp: initialize_def split: option.splits)
qed

lemma create_logger_done:
  "initialized st \<Longrightarrow>
     create_logger w name st = (emit st [GetLogger name], Inr (IssueRegistryAdapter name))"
  by (simp add: create_logger_def initialize_done)

lemma create_logger_returns:
  "create_logger w name st = (st', Inr a) \<Longrightarrow> initialized st'"
  by (auto simp: create_logger_def split: prod.splits option.splits dest: initialize_returns)

lemma create_logger_raises:
  "\<not> initialized st \<Longrightarrow> create_logger w name st = (st', Inl e) \<Longrightarrow> \<not> initialized st'"
  by (auto simp: create_logger_def split: prod.splits option.splits dest: initialize_raises)

lemma create_logger_loads: "loads (fst (create_logger w name st)) \<le> loads st + 1"
  using initialize_loads [of w st]
  by (auto simp: create_logger_def loads_emit split: prod.splits option.splits)

lemma create_logger_first_loads:
  "\<not> initialized st \<Longrightarrow> loads (fst (create_logger w name st)) = loads st + 1"
  using initialize_first_loads [of st w]
  by (auto simp: create_logger_def loads_emit split: prod.splits option.splits)

lemma create_loggers_done:
  "initialized st \<Longrightarrow>
     initialized (create_loggers st calls) \<and> loads (create_loggers st calls) = loads st"
proof (induction calls arbitrary: st)
  case Nil
  then show ?case by simp
next
  case (Cons c calls)
  obtain w name where c: "c = (w, name)" by (cases c)
  let ?st1 = "emit st [GetLogger name]"
  have "initialized ?st1" and "loads ?st1 = loads st"
    using Cons.prems by (simp_all add: loads_emit)
  then show ?case
    using Cons.IH [of ?st1] Cons.prems by (simp add: c create_logger_done)
qed






text \<open>
  C6, as amended. The flag is false at process start. A call of \<open>create_logger\<close> that
  returns an adapter leaves the flag true, also when its setup fell back to the default
  configuration; once the flag is true, every later call only fetches the logger, so
  the flag is never reset and the configuration is not loaded again. One call loads at
  most once, and when the first call of a sequence returns, the whole sequence loads
  exactly once. A call that raises leaves the flag false, and the next call attempts the
  load again.
\<close>

theorem create_logger_initializes_once:
  "\<not> initialized (initial_facade ds) \<and>
   (initialized st \<longrightarrow>
      create_logger w name st = (emit st [GetLogger name], Inr (IssueRegistryAdapter name))) \<and>
   (initialized st \<longrightarrow>
      initialized (create_loggers st calls) \<and> loads (create_loggers st calls) = loads st) \<and>
   (\<forall>st' a. create_logger w name st = (st', Inr a) \<longrightarrow> initialized st') \<and>
   (\<forall>st' e. \<not> initialized st \<and> create_logger w name st = (st', Inl e) \<longrightarrow> \<not> initialized st') \<and>
   loads (fst (create_logger w name st)) \<le> loads st + 1 \<and>
   (\<forall>st' a. create_logger w name (initial_facade ds) = (st', Inr a) \<longrightarrow>
      loads (create_loggers (initial_facade ds) ((w, name) # calls)) = 1)"
proof (intro conjI allI impI)
  show "\<not> initialized (initial_facade ds)" by (simp add: initial_facade_def)
next
  assume "initialized st"
  then show "create_logger w name st = (emit st [GetLogger name], Inr (IssueRegistryAdapter name))"
    by (rule create_logger_done)
next
  assume "initialized st"
  then show "initialized (create_loggers st calls)" by (simp add: create_loggers_done)
next
  assume "initialized st"
  then show "loads (create_loggers st calls) = loads st" by (simp add: create_loggers_done)
next
  fix st' a assume "create_logger w name st = (st', Inr a)"
  then show "initialized st'" by (rule create_logger_returns)
next
  fix st' e assume "\<not> initialized st \<and> create_logger w name st = (st', Inl e)"
  then show "\<not> initialized st'" using create_logger_raises by blast
next
  show "loads (fst (create_logger w name st)) \<le> loads st + 1" by (rule create_logger_loads)
next
  fix st' a assume r: "create_logger w name (initial_facade ds) = (st', Inr a)"
  have i: "initialized st'" using r by (rule create_logger_returns)
  have "loads st' = loads (initial_facade ds) + 1"
    using create_logger_first_loads [of "initial_facade ds" w name] r
    by (simp add: initial_facade_def)
  then have "loads st' = 1" by (simp add: loads_def initial_facade_def)
  then show "loads (create_loggers (initial_facade ds) ((w, name) # calls)) = 1"
    using create_loggers_done [OF i, of calls] r by simp
qed

theorem create_logger_initializes_once_witness:
  "create_logger missing_world ''app'' (initial_facade {}) =
     (\<lparr>initialized = True,
        events = [OpenConfig ''/srv/app/settings/config.yaml'', BasicConfig INFO,
                  LogWarning fallback_message, GetLogger ''app''],
        dirs = {}\<rparr>,
      Inr (IssueRegistryAdapter ''app'')) \<and>
   loads (create_loggers (initial_facade {}) [(missing_world, ''app''), (worker_world, ''db'')])
     = 1 \<and>
   create_logger worker_world ''db''
     \<lparr>initialized = True,
        events = [OpenConfig ''/srv/app/settings/config.yaml'', BasicConfig INFO,
                  LogWarning fallback_message, GetLogger ''app''],
        dirs = {}\<rparr> =
     (\<lparr>initialized = True,
        events = [OpenConfig ''/srv/app/settings/config.yaml'', BasicConfig INFO,
                  LogWarning fallback_message, GetLogger ''app'', GetLogger ''db''],
        dirs = {}\<rparr>,
      Inr (IssueRegistryAdapter ''db'')) \<and>
   isl (snd (create_logger locked_world ''app'' (initial_facade {}))) \<and>
   \<not> initialized (fst (create_logger locked_world ''app'' (initial_facade {})))"
proof -
  let ?first = "\<lparr>initialized = True,
        events = [OpenConfig ''/srv/app/settings/config.yaml'', BasicConfig INFO,
                  LogWarning fallback_message, GetLogger ''app''],
        dirs = {}\<rparr>"
  let ?cause = "Exc (OtherException ''PermissionError'') ''Permission denied'' None"
  let ?failed = "\<lparr>initialized = False,
        events = [OpenConfig ''/srv/app/settings/config.yaml''], dirs = {}\<rparr>"
  let ?raised = "Exc RuntimeError
        (''Unexpected error setting up logging: '' @ ''Permission denied'') (Some ?cause)"
  have r: "create_logger missing_world ''app'' (initial_facade {}) =
             (?first, Inr (IssueRegistryAdapter ''app''))"
    by (simp add: create_logger_def initialize_def setup_logging_def try_load_apply_def
          handle_setup_exception_def choose_config_path_def start_queue_listener_def
          emit_def missing_world_def initial_facade_def Let_def)
  have i: "initialized ?first" by simp
  have n: "\<not> initialized (initial_facade {})" by (simp add: initial_facade_def)
  have f: "create_logger locked_world ''app'' (initial_facade {}) = (?failed, Inl ?raised)"
    by (simp add: create_logger_def initialize_def setup_logging_def try_load_apply_def
          handle_setup_exception_def choose_config_path_def start_queue_listener_def
          emit_def locked_world_def missing_world_def initial_facade_def Let_def)
  have 1: "loads (create_loggers (initial_facade {})
                    [(missing_world, ''app''), (worker_world, ''db'')]) = 1"
    using create_logger_initializes_once
      [where w = missing_world and name = "''app''" and ds = "{}"
         and calls = "[(worker_world, ''db'')]"] r
    by blast
  have 2: "create_logger worker_world ''db'' ?first =
             (emit ?first [GetLogger ''db''], Inr (IssueRegistryAdapter ''db''))"
    using create_logger_initializes_once
      [where w = worker_world and name = "''db''" and st = ?first] i
    by blast
  have 3: "\<not> initialized ?failed"
    using create_logger_initializes_once
      [where w = locked_world and name = "''app''" and st = "initial_facade {}"] n f
    by blast
  show ?thesis using r 1 2 3 f by (simp add: emit_def)
qed

text \<open>
  The claim as it was stated fails: when \<open>dictConfig\<close> rejects the configuration, the
  first call raises, and a second call opens the configuration file again.
\<close>

theorem load_twice_counterexample:
  "loads (create_loggers (initial_facade {}) [(broken_world, ''app''), (broken_world, ''app'')])
     = 2"
  by (simp add: create_logger_def initialize_def setup_logging_def try_load_apply_def
        handle_setup_exception_def choose_config_path_def start_queue_listener_def
        emit_def broken_world_def worker_world_def missing_world_def initial_facade_def
        loads_def Let_def)



section \<open>Properties of the file output directories\<close>

lemma join_step_relative:
  "relative b \<Longrightarrow> join_step path b = (if path = [] then b else with_sep path @ b)"
  by (auto simp: join_step_def relative_def with_sep_def)

lemma join_logs_folder: "relative fo \<Longrightarrow> os_path_join ''logs'' [VStr fo] = Inr (''logs/'' @ fo)"
  by (simp add: join_step_def relative_def)

lemma relative_logs: "relative (''logs/'' @ fo)" "relative ''logs''"
  by (simp_all add: relative_def)

lemma join_root_folder:
  assumes "root \<noteq> []" and "relative fo" and "last fo \<noteq> CHR ''/''" and "relative fn"
  shows "os_path_join root [VStr (''logs/'' @ fo), VStr fn] = Inr (logs_target root (Some fo) fn)"
proof -
  have 1: "join_step root (''logs/'' @ fo) = with_sep root @ ''logs/'' @ fo"
    using assms(1) relative_logs(1) [of fo] by (simp add: join_step_relative)
  have ne: "with_sep root @ ''logs/'' @ fo \<noteq> []" by simp
  have "fo \<noteq> []" using assms(2) by (simp add: relative_def)
  then have l: "last (with_sep root @ ''logs/'' @ fo) = last fo" by simp
  have 2: "join_step (with_sep root @ ''logs/'' @ fo) fn = with_sep root @ ''logs/'' @ fo @ ''/'' @ fn"
    using assms(3,4) l ne by (simp add: join_step_def relative_def)
  show ?thesis by (simp only: os_path_join.simps 1 2 logs_target_def option.case)
qed

lemma join_root_plain:
  assumes "root \<noteq> []" and "relative fn"
  shows "os_path_join root [VStr ''logs'', VStr fn] = Inr (logs_target root None fn)"
proof -
  have 1: "join_step root ''logs'' = with_sep root @ ''logs''"
    using assms(1) relative_logs(2) by (simp add: join_step_relative)
  have 2: "join_step (with_sep root @ ''logs'') fn = with_sep root @ ''logs/'' @ fn"
    using assms(2) by (simp add: join_step_def relative_def)
  show ?thesis by (simp only: os_path_join.simps 1 2 logs_target_def option.case)
qed

lemma makedirs_ok:
  "makedirs w d st = (st', None) \<Longrightarrow>
     set (dir_chain d) \<subseteq> dirs st' \<and> dirs st \<subseteq> dirs st' \<and> events st' = events st \<and>
     initialized st' = initialized st"
  by (auto simp: makedirs_def split: option.splits)

lemma makedirs_fail:
  "makedirs w d st = (st', Some e) \<Longrightarrow> st' = st"
  by (auto simp: makedirs_def split: option.splits)

lemma makedirs_frame:
  "makedirs w d st = (st', r) \<Longrightarrow> dirs st \<subseteq> dirs st' \<and> events st' = events st"
  by (auto simp: makedirs_def split: option.splits)

lemma dir_chain_self: "d \<noteq> [] \<Longrightarrow> d \<in> set (dir_chain d)"
  by (subst dir_chain.simps) simp

lemma rewrite_handler_frame:
  "rewrite_handler w root h st = (st', r) \<Longrightarrow> dirs st \<subseteq> dirs st' \<and> events st' = events st"
  unfolding rewrite_handler_def Let_def
  by (auto split: if_splits sum.splits prod.splits option.splits dest!: makedirs_frame)

lemma rewrite_handlers_frame:
  "rewrite_handlers w root hs st = (st', r) \<Longrightarrow> dirs st \<subseteq> dirs st' \<and> events st' = events st"
proof (induction hs arbitrary: st st' r)
  case Nil
  then show ?case by simp
next
  case (Cons p hs)
  obtain name h where p: "p = (name, h)" by (cases p)
  obtain s1 r1 where s1: "rewrite_handler w root h st = (s1, r1)"
    by (cases "rewrite_handler w root h st")
  have f1: "dirs st \<subseteq> dirs s1 \<and> events s1 = events st"
    using s1 by (rule rewrite_handler_frame)
  show ?case
  proof (cases r1)
    case (Inl e)
    then show ?thesis using Cons.prems p s1 f1 by simp
  next
    case (Inr h')
    obtain s2 r2 where s2: "rewrite_handlers w root hs s1 = (s2, r2)"
      by (cases "rewrite_handlers w root hs s1")
    have f2: "dirs s1 \<subseteq> dirs s2 \<and> events s2 = events s1"
      using s2 by (rule Cons.IH)
    have "st' = s2" using Cons.prems p s1 Inr s2 by (cases r2) simp_all
    then show ?thesis using f1 f2 by auto
  qed
qed

text \<open>What the loop makes of one handler.\<close>

lemma rewrite_handler_other:
  "h ''class'' \<noteq> Some (VStr rotating_marker) \<Longrightarrow> rewrite_handler w root h st = (st, Inr h)"
  by (simp add: rewrite_handler_def)

lemma rewrite_handler_folder:
  assumes cls: "h ''class'' = Some (VStr rotating_marker)"
      and fn: "h ''filename'' = Some (VStr fn)" "relative fn"
      and fo: "h ''foldername'' = Some (VStr fo)" "relative fo" "last fo \<noteq> CHR ''/''"
      and root: "root \<noteq> []"
      and run: "rewrite_handler w root h st = (st', Inr h')"
  shows "h' = h(''foldername'' := None, ''filename'' \<mapsto> VStr (logs_target root (Some fo) fn)) \<and>
         set (dir_chain (dirname (logs_target root (Some fo) fn))) \<subseteq> dirs st'"
proof -
  have t: "truthy (VStr fo)" "truthy (VStr fn)" using fn(2) fo(2) by (simp_all add: relative_def)
  have j1: "os_path_join ''logs'' [VStr fo] = Inr (''logs/'' @ fo)"
    using fo(2) by (rule join_logs_folder)
  have j2: "os_path_join root [VStr (''logs/'' @ fo), VStr fn] = Inr (logs_target root (Some fo) fn)"
    using root fo(2,3) fn(2) by (rule join_root_folder)
  obtain s1 r1 where m: "makedirs w (dirname (logs_target root (Some fo) fn)) st = (s1, r1)"
    by (cases "makedirs w (dirname (logs_target root (Some fo) fn)) st")
  have u: "rewrite_handler w root h st =
      (case r1 of Some e \<Rightarrow> (s1, Inl e)
       | None \<Rightarrow> (s1, Inr (h(''foldername'' := None, ''filename'' \<mapsto> VStr (logs_target root (Some fo) fn)))))"
    unfolding rewrite_handler_def Let_def
    using cls fn(1) fo(1) t j1 j2 m by (simp del: os_path_join.simps)
  show ?thesis
  proof (cases r1)
    case None
    then have "st' = s1" and "h' = h(''foldername'' := None, ''filename'' \<mapsto> VStr (logs_target root (Some fo) fn))"
      using u run by simp_all
    moreover have "set (dir_chain (dirname (logs_target root (Some fo) fn))) \<subseteq> dirs s1"
      using m None makedirs_ok by blast
    ultimately show ?thesis by simp
  next
    case (Some e)
    then show ?thesis using u run by simp
  qed
qed

lemma rewrite_handler_plain:
  assumes cls: "h ''class'' = Some (VStr rotating_marker)"
      and fn: "h ''filename'' = Some (VStr fn)" "relative fn"
      and fo: "h ''foldername'' = None \<or> (\<exists>v. h ''foldername'' = Some v \<and> \<not> truthy v)"
      and root: "root \<noteq> []"
      and run: "rewrite_handler w root h st = (st', Inr h')"
  shows "h' = h(''foldername'' := None, ''filename'' \<mapsto> VStr (logs_target root None fn)) \<and>
         set (dir_chain (dirname (logs_target root None fn))) \<subseteq> dirs st'"
proof -
  have t: "truthy (VStr fn)" using fn(2) by (simp add: relative_def)
  have nf: "\<not> truthy (case h ''foldername'' of None \<Rightarrow> VStr [] | Some v \<Rightarrow> v)"
    using fo by auto
  have j2: "os_path_join root [VStr ''logs'', VStr fn] = Inr (logs_target root None fn)"
    using root fn(2) by (rule join_root_plain)
  obtain s1 r1 where m: "makedirs w (dirname (logs_target root None fn)) st = (s1, r1)"
    by (cases "makedirs w (dirname (logs_target root None fn)) st")
  have u: "rewrite_handler w root h st =
      (case r1 of Some e \<Rightarrow> (s1, Inl e)
       | None \<Rightarrow> (s1, Inr (h(''foldername'' := None, ''filename'' \<mapsto> VStr (logs_target root None fn)))))"
    unfolding rewrite_handler_def Let_def
    using cls fn(1) nf t j2 m by (simp del: os_path_join.simps)
  show ?thesis
  proof (cases r1)
    case None
    then have "st' = s1" and "h' = h(''foldername'' := None, ''filename'' \<mapsto> VStr (logs_target root None fn))"
      using u run by simp_all
    moreover have "set (dir_chain (dirname (logs_target root None fn))) \<subseteq> dirs s1"
      using m None makedirs_ok by blast
    ultimately show ?thesis by simp
  next
    case (Some e)
    then show ?thesis using u run by simp
  qed
qed


lemma rewrite_handlers_nth:
  "rewrite_handlers w root hs st = (st', Inr hs') \<Longrightarrow>
     length hs' = length hs \<and>
     (\<forall>i<length hs. \<exists>sa sb.
        fst (hs' ! i) = fst (hs ! i) \<and>
        rewrite_handler w root (snd (hs ! i)) sa = (sb, Inr (snd (hs' ! i))) \<and>
        dirs sb \<subseteq> dirs st')"
proof (induction hs arbitrary: st st' hs')
  case Nil
  then show ?case by simp
next
  case (Cons p hs)
  obtain name h where p: "p = (name, h)" by (cases p)
  obtain s1 r1 where s1: "rewrite_handler w root h st = (s1, r1)"
    by (cases "rewrite_handler w root h st")
  obtain s2 r2 where s2: "rewrite_handlers w root hs s1 = (s2, r2)"
    by (cases "rewrite_handlers w root hs s1")
  from Cons.prems p s1 s2 obtain h' hs2 where
    r1: "r1 = Inr h'" and r2: "r2 = Inr hs2" and st': "st' = s2" and hs': "hs' = (name, h') # hs2"
    by (cases r1; cases r2) auto
  have ih: "length hs2 = length hs \<and>
     (\<forall>i<length hs. \<exists>sa sb.
        fst (hs2 ! i) = fst (hs ! i) \<and>
        rewrite_handler w root (snd (hs ! i)) sa = (sb, Inr (snd (hs2 ! i))) \<and>
        dirs sb \<subseteq> dirs s2)"
    using s2 r2 by (intro Cons.IH) simp
  have mono: "dirs s1 \<subseteq> dirs s2" using s2 rewrite_handlers_frame by blast
  show ?case
  proof (intro conjI allI impI)
    show "length hs' = length (p # hs)" using ih hs' by simp
  next
    fix i assume i: "i < length (p # hs)"
    show "\<exists>sa sb. fst (hs' ! i) = fst ((p # hs) ! i) \<and>
        rewrite_handler w root (snd ((p # hs) ! i)) sa = (sb, Inr (snd (hs' ! i))) \<and>
        dirs sb \<subseteq> dirs st'"
    proof (cases i)
      case 0
      then show ?thesis using p hs' s1 r1 mono st' by auto
    next
      case (Suc j)
      then have "j < length hs" using i by simp
      then show ?thesis using ih Suc hs' st' by simp
    qed
  qed
qed

lemma handle_frame:
  "handle_setup_exception (s, r) = (s', r') \<Longrightarrow>
     dirs s' = dirs s \<and>
     (events s' = events s \<or> events s' = events s @ [BasicConfig INFO, LogWarning fallback_message])"
  by (auto simp: handle_setup_exception_def emit_def split: option.splits if_splits)

lemma new_events_append: "events st' = events st @ es \<Longrightarrow> new_events st st' = es"
  by (simp add: new_events_def)

lemma core_setup_loop_raises:
  assumes "open_file w (choose_config_path w cp) = Inr body"
      and "safe_load w body = Inr (Mapping (Config (Some hs) rest))"
      and "rewrite_handlers w (module_parent_dir w) hs
             (emit st [OpenConfig (choose_config_path w cp)]) = (s2, Inl e)"
      and "core_setup_logging w cp st = (st', r)"
  shows "DictConfig doc \<notin> set (new_events st st')"
proof -
  have "handle_setup_exception (s2, Some e) = (st', r)"
    using assms
    by (simp add: core_setup_logging_def core_try_load_apply_def Let_def
          setup_file_output_directory_def)
  then have "events st' = events s2 \<or>
             events st' = events s2 @ [BasicConfig INFO, LogWarning fallback_message]"
    using handle_frame by blast
  moreover have "events s2 = events st @ [OpenConfig (choose_config_path w cp)]"
    using assms(3) rewrite_handlers_frame [of w "module_parent_dir w" hs] by fastforce
  ultimately have "new_events st st' = [OpenConfig (choose_config_path w cp)] \<or>
     new_events st st' = [OpenConfig (choose_config_path w cp), BasicConfig INFO,
                          LogWarning fallback_message]"
    by (auto simp: new_events_def)
  then show ?thesis by auto
qed

lemma core_setup_loop_returns:
  assumes "open_file w (choose_config_path w cp) = Inr body"
      and "safe_load w body = Inr (Mapping (Config (Some hs) rest))"
      and "rewrite_handlers w (module_parent_dir w) hs
             (emit st [OpenConfig (choose_config_path w cp)]) = (s2, Inr hs')"
      and "core_setup_logging w cp st = (st', r)"
      and "DictConfig doc \<in> set (new_events st st')"
  shows "doc = Mapping (Config (Some hs') rest) \<and> dirs st' = dirs s2"
proof -
  let ?d = "Mapping (Config (Some hs') rest)"
  have "handle_setup_exception (emit s2 [DictConfig ?d], dictConfig w ?d) = (st', r)"
    using assms(1-4)
    by (simp add: core_setup_logging_def core_try_load_apply_def Let_def
          setup_file_output_directory_def)
  then have h: "dirs st' = dirs s2 \<and> (events st' = events s2 @ [DictConfig ?d] \<or>
             events st' = events s2 @ [DictConfig ?d, BasicConfig INFO, LogWarning fallback_message])"
    using handle_frame [of "emit s2 [DictConfig ?d]" "dictConfig w ?d" st' r]
    by (auto simp: emit_def)
  moreover have "events s2 = events st @ [OpenConfig (choose_config_path w cp)]"
    using assms(3) rewrite_handlers_frame [of w "module_parent_dir w" hs] by fastforce
  ultimately have "new_events st st' = [OpenConfig (choose_config_path w cp), DictConfig ?d] \<or>
     new_events st st' = [OpenConfig (choose_config_path w cp), DictConfig ?d, BasicConfig INFO,
                          LogWarning fallback_message]"
    by (auto simp: new_events_def)
  then show ?thesis using assms(5) h by auto
qed

lemma logs_target_absolute:
  "root \<noteq> [] \<Longrightarrow> hd root = CHR ''/'' \<Longrightarrow> hd (logs_target root folder fn) = CHR ''/''"
  by (cases folder) (auto simp: logs_target_def with_sep_def)


lemma rewrite_handler_shape:
  assumes "h ''class'' = Some (VStr rotating_marker)" and "h ''filename'' = Some (VStr fn)"
      and "fn \<noteq> []" and "rewrite_handler w root h sa = (sb, Inr h')"
  shows "\<exists>p. h' = h(''foldername'' := None, ''filename'' \<mapsto> VStr p)"
  using assms unfolding rewrite_handler_def Let_def
  by (auto split: if_splits sum.splits prod.splits option.splits)

text \<open>
  C8, as amended. In the setup of \<open>core/factory.py\<close>, a configuration that reaches
  \<open>dictConfig\<close> has been rewritten first. For each of its handlers whose class is the
  rotating file handler and whose \<open>filename\<close> is a relative path: the \<open>foldername\<close> key is
  gone and every key other than \<open>filename\<close> and \<open>foldername\<close> is as it was; \<open>filename\<close> is
  the absolute path \<open>root/logs/filename\<close> when there is no folder name or a falsy one, and
  \<open>root/logs/foldername/filename\<close> when the folder name is a relative path that does not
  end with the separator, \<open>root\<close> being the parent of the module's directory; and the
  directory of that file exists, with all its ancestors.
\<close>

theorem file_handlers_rewritten:
  assumes loaded: "open_file w (choose_config_path w cp) = Inr body"
                  "safe_load w body = Inr (Mapping (Config (Some hs) rest))"
      and run: "core_setup_logging w cp st = (st', r)"
      and applied: "DictConfig doc \<in> set (new_events st st')"
      and entry: "i < length hs" "hs ! i = (name, h)"
      and rotating: "h ''class'' = Some (VStr rotating_marker)"
                    "h ''filename'' = Some (VStr fn)" "relative fn"
      and root: "module_parent_dir w \<noteq> []" "hd (module_parent_dir w) = CHR ''/''"
  shows "\<exists>hs' h'. doc = Mapping (Config (Some hs') rest) \<and> length hs' = length hs \<and>
           hs' ! i = (name, h') \<and>
           h' ''foldername'' = None \<and>
           (\<forall>key. key \<noteq> ''filename'' \<and> key \<noteq> ''foldername'' \<longrightarrow> h' key = h key) \<and>
           (h ''foldername'' = None \<or> (\<exists>v. h ''foldername'' = Some v \<and> \<not> truthy v) \<longrightarrow>
              h' ''filename'' = Some (VStr (logs_target (module_parent_dir w) None fn)) \<and>
              hd (logs_target (module_parent_dir w) None fn) = CHR ''/'' \<and>
              set (dir_chain (dirname (logs_target (module_parent_dir w) None fn)))
                \<subseteq> dirs st') \<and>
           (\<forall>fo. h ''foldername'' = Some (VStr fo) \<and> relative fo \<and> last fo \<noteq> CHR ''/'' \<longrightarrow>
              h' ''filename'' = Some (VStr (logs_target (module_parent_dir w) (Some fo) fn)) \<and>
              hd (logs_target (module_parent_dir w) (Some fo) fn) = CHR ''/'' \<and>
              set (dir_chain (dirname (logs_target (module_parent_dir w) (Some fo) fn)))
                \<subseteq> dirs st')"
proof -
  let ?root = "module_parent_dir w"
  let ?st1 = "emit st [OpenConfig (choose_config_path w cp)]"
  obtain s2 rr where loop: "rewrite_handlers w ?root hs ?st1 = (s2, rr)"
    by (cases "rewrite_handlers w ?root hs ?st1")
  have "\<exists>hs'. rr = Inr hs'"
  proof (cases rr)
    case (Inl e)
    then show ?thesis
      using core_setup_loop_raises [OF loaded _ run, of s2 e doc] loop applied by simp
  next
    case (Inr hs')
    then show ?thesis by simp
  qed
  then obtain hs' where rr: "rr = Inr hs'" by blast
  have doc: "doc = Mapping (Config (Some hs') rest)" and d2: "dirs st' = dirs s2"
    using core_setup_loop_returns [OF loaded _ run applied, of s2 hs'] loop rr by simp_all
  have nth: "length hs' = length hs \<and>
     (\<forall>i<length hs. \<exists>sa sb.
        fst (hs' ! i) = fst (hs ! i) \<and>
        rewrite_handler w ?root (snd (hs ! i)) sa = (sb, Inr (snd (hs' ! i))) \<and>
        dirs sb \<subseteq> dirs s2)"
    using loop rr by (intro rewrite_handlers_nth) simp
  then obtain sa sb where
    nm: "fst (hs' ! i) = name" and
    rh: "rewrite_handler w ?root h sa = (sb, Inr (snd (hs' ! i)))" and
    sub: "dirs sb \<subseteq> dirs st'"
    using entry d2 by fastforce
  let ?h' = "snd (hs' ! i)"
  have pair: "hs' ! i = (name, ?h')" using nm by (cases "hs' ! i") simp
  have plain: "?h' = h(''foldername'' := None,
                       ''filename'' \<mapsto> VStr (logs_target ?root None fn)) \<and>
               set (dir_chain (dirname (logs_target ?root None fn))) \<subseteq> dirs sb"
    if "h ''foldername'' = None \<or> (\<exists>v. h ''foldername'' = Some v \<and> \<not> truthy v)"
    using rewrite_handler_plain [OF rotating that root(1) rh] .
  have folder: "?h' = h(''foldername'' := None,
                        ''filename'' \<mapsto> VStr (logs_target ?root (Some fo) fn)) \<and>
               set (dir_chain (dirname (logs_target ?root (Some fo) fn))) \<subseteq> dirs sb"
    if "h ''foldername'' = Some (VStr fo)" "relative fo" "last fo \<noteq> CHR ''/''" for fo
    using rewrite_handler_folder [OF rotating that root(1) rh] .
  have "fn \<noteq> []" using rotating(3) by (simp add: relative_def)
  then have shape: "\<exists>p. ?h' = h(''foldername'' := None, ''filename'' \<mapsto> VStr p)"
    using rewrite_handler_shape [OF rotating(1,2) _ rh] by simp
  have gone: "?h' ''foldername'' = None" using shape by auto
  have same: "\<forall>key. key \<noteq> ''filename'' \<and> key \<noteq> ''foldername'' \<longrightarrow> ?h' key = h key"
    using shape by auto
  have abs: "hd (logs_target ?root f fn) = CHR ''/''" for f
    using root by (rule logs_target_absolute)
  show ?thesis
  proof (intro exI [of _ hs'] exI [of _ ?h'] conjI allI impI)
    show "doc = Mapping (Config (Some hs') rest)" by (rule doc)
    show "length hs' = length hs" using nth by simp
    show "hs' ! i = (name, ?h')" by (rule pair)
    show "?h' ''foldername'' = None" by (rule gone)
  next
    fix key assume "key \<noteq> ''filename'' \<and> key \<noteq> ''foldername''"
    then show "?h' key = h key" using same by simp
  next
    assume a: "h ''foldername'' = None \<or> (\<exists>v. h ''foldername'' = Some v \<and> \<not> truthy v)"
    show "?h' ''filename'' = Some (VStr (logs_target ?root None fn))"
      using plain [OF a] by simp
    show "hd (logs_target ?root None fn) = CHR ''/''" by (rule abs)
    show "set (dir_chain (dirname (logs_target ?root None fn))) \<subseteq> dirs st'"
      using plain [OF a] sub by blast
  next
    fix fo assume a: "h ''foldername'' = Some (VStr fo) \<and> relative fo \<and> last fo \<noteq> CHR ''/''"
    then have a3: "h ''foldername'' = Some (VStr fo)" "relative fo" "last fo \<noteq> CHR ''/''"
      by simp_all
    show "?h' ''filename'' = Some (VStr (logs_target ?root (Some fo) fn))"
      using folder [OF a3] by simp
    show "hd (logs_target ?root (Some fo) fn) = CHR ''/''" by (rule abs)
    show "set (dir_chain (dirname (logs_target ?root (Some fo) fn))) \<subseteq> dirs st'"
      using folder [OF a3] sub by blast
  qed
qed


theorem file_handlers_rewritten_witness:
  "relative ''app.log'' \<and> relative ''worker'' \<and>
   (\<exists>hs' h'.
      applied (new_events (initial_facade {})
                 (fst (core_setup_logging worker_world None (initial_facade {}))))
        = [Mapping (Config (Some hs') [''version'' \<mapsto> VInt 1])] \<and>
      hs' ! 0 = (''file'', h') \<and>
      h' ''filename'' = Some (VStr ''/srv/app/logs/worker/app.log'') \<and>
      h' ''foldername'' = None \<and>
      ''/srv/app/logs/worker''
        \<in> dirs (fst (core_setup_logging worker_world None (initial_facade {})))) \<and>
   (\<exists>hs' h'.
      applied (new_events (initial_facade {})
                 (fst (core_setup_logging plain_world None (initial_facade {}))))
        = [Mapping (Config (Some hs') [''version'' \<mapsto> VInt 1])] \<and>
      hs' ! 0 = (''file'', h') \<and>
      h' ''filename'' = Some (VStr ''/srv/app/logs/app.log'') \<and>
      h' ''maxBytes'' = Some (VInt 1048576) \<and>
      ''/srv/app/logs''
        \<in> dirs (fst (core_setup_logging plain_world None (initial_facade {}))))"
proof -
  let ?path = "''/srv/app/settings/config.yaml''"
  let ?version = "[''version'' \<mapsto> VInt 1]"
  have rel: "relative ''app.log''" "relative ''worker''" "last ''worker'' \<noteq> CHR ''/''"
    by (simp_all add: relative_def)
  have worker: "\<exists>hs' h'.
      applied (new_events (initial_facade {})
                 (fst (core_setup_logging worker_world None (initial_facade {}))))
        = [Mapping (Config (Some hs') ?version)] \<and>
      hs' ! 0 = (''file'', h') \<and>
      h' ''filename'' = Some (VStr ''/srv/app/logs/worker/app.log'') \<and>
      h' ''foldername'' = None \<and>
      ''/srv/app/logs/worker''
        \<in> dirs (fst (core_setup_logging worker_world None (initial_facade {})))"
  proof -
    let ?run = "core_setup_logging worker_world None (initial_facade {})"
    let ?doc = "Mapping (Config
       (Some [(''file'', worker_handler(''foldername'' := None,
                 ''filename'' \<mapsto> VStr ''/srv/app/logs/worker/app.log''))])
       ?version)"
    have wh: "worker_handler ''class'' = Some (VStr rotating_marker)"
      "worker_handler ''filename'' = Some (VStr ''app.log'')"
      "worker_handler ''foldername'' = Some (VStr ''worker'')"
      by (simp_all add: worker_handler_def rotating_marker_def)
    have p: "choose_config_path worker_world None = ?path"
      by (simp add: choose_config_path_def worker_world_def missing_world_def)
    have ld: "open_file worker_world ?path = Inr ''handlers: ...''"
      "safe_load worker_world ''handlers: ...'' =
         Inr (Mapping (Config (Some [(''file'', worker_handler)]) ?version))"
      "module_parent_dir worker_world = ''/srv/app''"
      "dictConfig worker_world = (\<lambda>d. None)"
      "makedirs_raises worker_world = (\<lambda>d. None)"
      by (simp_all add: worker_world_def missing_world_def)
    have ev: "new_events (initial_facade {}) (fst ?run) = [OpenConfig ?path, DictConfig ?doc]"
      by (simp add: core_setup_logging_def core_try_load_apply_def
            setup_file_output_directory_def handle_setup_exception_def rewrite_handler_def
            makedirs_def emit_def initial_facade_def Let_def join_step_def new_events_def
            p ld wh)
    have tgt: "logs_target ''/srv/app'' (Some ''worker'') ''app.log''
                 = ''/srv/app/logs/worker/app.log''"
      by (simp add: logs_target_def with_sep_def)
    have dn: "dirname ''/srv/app/logs/worker/app.log'' = ''/srv/app/logs/worker''"
      by (simp add: dirname_def is_sep_def)
    obtain hs' h' where
      d: "?doc = Mapping (Config (Some hs') ?version)" and
      n: "hs' ! 0 = (''file'', h')" and
      g: "h' ''foldername'' = None" and
      f: "\<forall>fo. worker_handler ''foldername'' = Some (VStr fo) \<and> relative fo \<and>
                last fo \<noteq> CHR ''/'' \<longrightarrow>
             h' ''filename'' = Some (VStr (logs_target ''/srv/app'' (Some fo) ''app.log'')) \<and>
             hd (logs_target ''/srv/app'' (Some fo) ''app.log'') = CHR ''/'' \<and>
             set (dir_chain (dirname (logs_target ''/srv/app'' (Some fo) ''app.log'')))
               \<subseteq> dirs (fst ?run)"
      using file_handlers_rewritten
        [where w = worker_world and cp = None and st = "initial_facade {}"
           and st' = "fst ?run" and r = "snd ?run" and doc = ?doc and i = 0
           and name = "''file''" and h = worker_handler and fn = "''app.log''"
           and body = "''handlers: ...''" and hs = "[(''file'', worker_handler)]"
           and rest = ?version]
        p ld(1-3) wh rel ev
      by auto
    have f1: "h' ''filename'' = Some (VStr ''/srv/app/logs/worker/app.log'')"
      and f2: "set (dir_chain ''/srv/app/logs/worker'') \<subseteq> dirs (fst ?run)"
      using f wh(3) rel tgt dn by auto
    have "''/srv/app/logs/worker'' \<in> set (dir_chain ''/srv/app/logs/worker'')"
      by (rule dir_chain_self) simp
    then have m: "''/srv/app/logs/worker'' \<in> dirs (fst ?run)" using f2 by blast
    have a: "applied (new_events (initial_facade {}) (fst ?run)) = [?doc]"
      by (simp add: ev)
    show ?thesis using a d n f1 g m by auto
  qed
  have plain: "\<exists>hs' h'.
      applied (new_events (initial_facade {})
                 (fst (core_setup_logging plain_world None (initial_facade {}))))
        = [Mapping (Config (Some hs') ?version)] \<and>
      hs' ! 0 = (''file'', h') \<and>
      h' ''filename'' = Some (VStr ''/srv/app/logs/app.log'') \<and>
      h' ''maxBytes'' = Some (VInt 1048576) \<and>
      ''/srv/app/logs''
        \<in> dirs (fst (core_setup_logging plain_world None (initial_facade {})))"
  proof -
    let ?run = "core_setup_logging plain_world None (initial_facade {})"
    let ?doc = "Mapping (Config
       (Some [(''file'', plain_handler(''foldername'' := None,
                 ''filename'' \<mapsto> VStr ''/srv/app/logs/app.log''))])
       ?version)"
    have ph: "plain_handler ''class'' = Some (VStr rotating_marker)"
      "plain_handler ''filename'' = Some (VStr ''app.log'')"
      "plain_handler ''foldername'' = None"
      "plain_handler ''maxBytes'' = Some (VInt 1048576)"
      by (simp_all add: plain_handler_def rotating_marker_def)
    have p: "choose_config_path plain_world None = ?path"
      by (simp add: choose_config_path_def plain_world_def worker_world_def
            missing_world_def)
    have ld: "open_file plain_world ?path = Inr ''handlers: ...''"
      "safe_load plain_world ''handlers: ...'' =
         Inr (Mapping (Config (Some [(''file'', plain_handler)]) ?version))"
      "module_parent_dir plain_world = ''/srv/app''"
      "dictConfig plain_world = (\<lambda>d. None)"
      "makedirs_raises plain_world = (\<lambda>d. None)"
      by (simp_all add: plain_world_def worker_world_def missing_world_def)
    have ev: "new_events (initial_facade {}) (fst ?run) = [OpenConfig ?path, DictConfig ?doc]"
      by (simp add: core_setup_logging_def core_try_load_apply_def
            setup_file_output_directory_def handle_setup_exception_def rewrite_handler_def
            makedirs_def emit_def initial_facade_def Let_def join_step_def new_events_def
            p ld ph)
    have tgt: "logs_target ''/srv/app'' None ''app.log'' = ''/srv/app/logs/app.log''"
      by (simp add: logs_target_def with_sep_def)
    have dn: "dirname ''/srv/app/logs/app.log'' = ''/srv/app/logs''"
      by (simp add: dirname_def is_sep_def)
    obtain hs' h' where
      d: "?doc = Mapping (Config (Some hs') ?version)" and
      n: "hs' ! 0 = (''file'', h')" and
      o: "\<forall>key. key \<noteq> ''filename'' \<and> key \<noteq> ''foldername'' \<longrightarrow> h' key = plain_handler key"
      and
      f: "plain_handler ''foldername'' = None \<or>
            (\<exists>v. plain_handler ''foldername'' = Some v \<and> \<not> truthy v) \<longrightarrow>
             h' ''filename'' = Some (VStr (logs_target ''/srv/app'' None ''app.log'')) \<and>
             hd (logs_target ''/srv/app'' None ''app.log'') = CHR ''/'' \<and>
             set (dir_chain (dirname (logs_target ''/srv/app'' None ''app.log'')))
               \<subseteq> dirs (fst ?run)"
      using file_handlers_rewritten
        [where w = plain_world and cp = None and st = "initial_facade {}"
           and st' = "fst ?run" and r = "snd ?run" and doc = ?doc and i = 0
           and name = "''file''" and h = plain_handler and fn = "''app.log''"
           and body = "''handlers: ...''" and hs = "[(''file'', plain_handler)]"
           and rest = ?version]
        p ld(1-3) ph(1,2) rel(1) ev
      by auto
    have f1: "h' ''filename'' = Some (VStr ''/srv/app/logs/app.log'')"
      and f2: "set (dir_chain ''/srv/app/logs'') \<subseteq> dirs (fst ?run)"
      using f ph(3) tgt dn by auto
    have k: "h' ''maxBytes'' = Some (VInt 1048576)" using o ph(4) by simp
    have "''/srv/app/logs'' \<in> set (dir_chain ''/srv/app/logs'')"
      by (rule dir_chain_self) simp
    then have m: "''/srv/app/logs'' \<in> dirs (fst ?run)" using f2 by blast
    have a: "applied (new_events (initial_facade {}) (fst ?run)) = [?doc]"
      by (simp add: ev)
    show ?thesis using a d n f1 k m by auto
  qed
  show ?thesis using rel(1,2) worker plain by blast
qed

text \<open>
  The claim as it was stated fails twice. A handler with the absolute file name
  \<open>/var/log/app.log\<close> keeps that name, which is not under \<open>/srv/app/logs\<close>: \<open>os.path.join\<close>
  drops what precedes an absolute part. And the setup of \<open>logs/core/factory.py\<close> has no
  rewriting step: the configuration reaches \<open>dictConfig\<close> with \<open>filename\<close> and
  \<open>foldername\<close> as they were loaded.
\<close>

theorem file_handlers_counterexample:
  "module_parent_dir absolute_world = ''/srv/app'' \<and>
   map handler_files
     (applied (events (fst (core_setup_logging absolute_world None (initial_facade {})))))
     = [[(''file'', Some (VStr ''/var/log/app.log''), None)]] \<and>
   map handler_files
     (applied (events (fst (setup_logging worker_world None (initial_facade {})))))
     = [[(''file'', Some (VStr ''app.log''), Some (VStr ''worker''))]]"
  by (simp add: core_setup_logging_def core_try_load_apply_def
        setup_file_output_directory_def handle_setup_exception_def choose_config_path_def
        rewrite_handler_def makedirs_def emit_def initial_facade_def Let_def
        rotating_marker_def join_step_def setup_logging_def try_load_apply_def
        absolute_world_def worker_world_def missing_world_def absolute_handler_def
        worker_handler_def)

end
